theory Spec2Isabelle
  imports Main "HOL-Library.AList"
begin

section \<open>Authentication module of the MCP server (src/auth/auth.ts)\<close>

subsection \<open>Strings\<close>

text \<open>JavaScript's \<^verbatim>\<open>String.prototype.startsWith\<close>, \<^verbatim>\<open>endsWith\<close> and
  \<^verbatim>\<open>includes\<close> on strings of single-byte characters.\<close>

fun startsWith :: "string \<Rightarrow> string \<Rightarrow> bool" where
  "startsWith s [] = True"
| "startsWith [] (c # t) = False"
| "startsWith (d # s) (c # t) = (d = c \<and> startsWith s t)"

definition endsWith :: "string \<Rightarrow> string \<Rightarrow> bool" where
  "endsWith s t = startsWith (rev s) (rev t)"

fun str_includes :: "string \<Rightarrow> string \<Rightarrow> bool" where
  "str_includes [] t = (t = [])"
| "str_includes (c # s) t = (startsWith (c # s) t \<or> str_includes s t)"

text \<open>\<^verbatim>\<open>s.split(c)\<close> for a one-character separator: the pieces between the
  occurrences of \<open>c\<close>, empty pieces included, so that the empty string gives one
  empty piece.\<close>

fun split_on :: "char \<Rightarrow> string \<Rightarrow> string list" where
  "split_on c [] = [[]]"
| "split_on c (x # xs) =
     (if x = c then [] # split_on c xs
      else (case split_on c xs of [] \<Rightarrow> [[x]] | w # ws \<Rightarrow> (x # w) # ws))"

text \<open>\<^verbatim>\<open>xs.join(sep)\<close>.\<close>

fun join :: "string \<Rightarrow> string list \<Rightarrow> string" where
  "join sep [] = []"
| "join sep [x] = x"
| "join sep (x # y # ys) = x @ sep @ join sep (y # ys)"

text \<open>Decimal rendering of a natural number, as a template literal renders an HTTP
  status.\<close>

definition digit_char :: "nat \<Rightarrow> char" where
  "digit_char d = char_of (48 + d)"

fun show_nat :: "nat \<Rightarrow> string" where
  "show_nat n = (if n < 10 then [digit_char n] else show_nat (n div 10) @ [digit_char (n mod 10)])"

declare show_nat.simps [simp del]

subsection \<open>JavaScript values\<close>

text \<open>The values a parsed JSON document or a token payload holds, with
  \<^verbatim>\<open>undefined\<close> for what a property read gives when the key is absent. An object
  is the list of its keys and values in insertion order, each key once.\<close>

datatype jsval =
    JUndefined
  | JNull
  | JBool bool
  | JNum int
  | JStr string
  | JArr "jsval list"
  | JObj "(string \<times> jsval) list"

type_synonym jsobject = "(string \<times> jsval) list"

text \<open>\<^verbatim>\<open>obj.key\<close> on an object.\<close>

definition get_prop :: "jsobject \<Rightarrow> string \<Rightarrow> jsval" where
  "get_prop obj k = (case map_of obj k of None \<Rightarrow> JUndefined | Some v \<Rightarrow> v)"

text \<open>\<^verbatim>\<open>a ?? b\<close>: the right operand only when the left one is null or undefined.\<close>

definition nc :: "jsval \<Rightarrow> jsval \<Rightarrow> jsval" where
  "nc a b = (if a = JUndefined \<or> a = JNull then b else a)"


subsection \<open>Errors\<close>

text \<open>The exceptions the module throws: a plain \<^verbatim>\<open>Error\<close>, the SDK's
  \<^verbatim>\<open>InvalidTokenError\<close>, and the platform's \<^verbatim>\<open>TypeError\<close>; each carries
  its message. A function that may throw returns \<open>error + 'a\<close>.\<close>

datatype error = Error string | InvalidTokenError string | TypeError string

subsection \<open>Validation method resolution\<close>

text \<open>\<^verbatim>\<open>OAuthValidationMethod = 'introspection' | 'jwt' | 'auto'\<close> is the configured
  method; the resolved one is \<^verbatim>\<open>'introspection' | 'jwt'\<close>.\<close>

datatype OAuthValidationMethod = ForceIntrospection | ForceJwt | Auto

datatype validation_method = Introspection | Jwt

definition msg_credentials_required :: string where
  "msg_credentials_required =
     ''MCP_OAUTH_CLIENT_ID and MCP_OAUTH_CLIENT_SECRET are required for introspection validation.''"

definition msg_no_introspection_endpoint :: string where
  "msg_no_introspection_endpoint =
     ''Introspection endpoint not available. Set MCP_OAUTH_INTROSPECTION_URL or use jwt validation.''"

definition msg_no_jwks_uri :: string where
  "msg_no_jwks_uri =
     ''JWKS URI not available. Set MCP_OAUTH_JWKS_URL or ensure issuer metadata includes jwks_uri.''"

definition msg_auto_no_endpoint :: string where
  "msg_auto_no_endpoint =
     ''OAuth auto-detection failed: client credentials provided but no introspection endpoint available. '' @
     ''Set MCP_OAUTH_INTROSPECTION_URL or use MCP_OAUTH_VALIDATION_METHOD=jwt with JWKS.''"

definition msg_auto_nothing :: string where
  "msg_auto_nothing =
     ''OAuth auto-detection failed: no client credentials and no JWKS URI available. '' @
     ''Configure either client credentials for introspection or ensure jwks_uri is in issuer metadata.''"

definition resolveValidationMethod ::
  "OAuthValidationMethod \<Rightarrow> bool \<Rightarrow> bool \<Rightarrow> bool \<Rightarrow> error + validation_method" where
  "resolveValidationMethod method hasClientCredentials hasIntrospectionEndpoint hasJwksUri =
     (if method = ForceIntrospection then
        (if \<not> hasClientCredentials then Inl (Error msg_credentials_required)
         else if \<not> hasIntrospectionEndpoint then Inl (Error msg_no_introspection_endpoint)
         else Inr Introspection)
      else if method = ForceJwt then
        (if \<not> hasJwksUri then Inl (Error msg_no_jwks_uri) else Inr Jwt)
      else if hasClientCredentials \<and> hasIntrospectionEndpoint then Inr Introspection
      else if hasJwksUri then Inr Jwt
      else if hasClientCredentials then Inl (Error msg_auto_no_endpoint)
      else Inl (Error msg_auto_nothing))"

subsection \<open>Configuration (src/auth/config.ts)\<close>

text \<open>The constants the configuration module exports, read once from the environment.
  A setting of type \<^verbatim>\<open>string | undefined\<close> is a \<open>string option\<close>.
  \<open>env_MCP_PUBLIC_URL\<close> is \<^verbatim>\<open>process.env.MCP_PUBLIC_URL\<close>, which
  \<open>buildAuthContext\<close> reads itself.\<close>

record config =
  MCP_AUTH_MODE :: string
  MCP_BEARER_TOKEN :: "string option"
  MCP_PUBLIC_URL :: string
  env_MCP_PUBLIC_URL :: "string option"
  MCP_OAUTH_INTERNAL_ISSUER_URL :: "string option"
  MCP_OAUTH_PUBLIC_ISSUER_URL :: "string option"
  MCP_OAUTH_CLIENT_ID :: "string option"
  MCP_OAUTH_CLIENT_SECRET :: "string option"
  MCP_OAUTH_INTROSPECTION_URL :: "string option"
  MCP_OAUTH_AUDIENCE :: "string option"
  MCP_OAUTH_VALIDATION_METHOD :: OAuthValidationMethod
  MCP_OAUTH_JWKS_URL :: "string option"
  MCP_OAUTH_EXPECTED_ISSUER :: "string option"
  MCP_OAUTH_DISCOVERY_RETRIES :: int
  MCP_OAUTH_DISCOVERY_RETRY_DELAY_MS :: int

subsection \<open>Mode resolution\<close>



subsection \<open>URLs\<close>

text \<open>The platform's \<^verbatim>\<open>URL\<close> class, for \<^verbatim>\<open>http\<close> and \<^verbatim>\<open>https\<close>
  URLs written in the form the class itself serialises: scheme, \<^verbatim>\<open>://\<close>, a
  non-empty authority, a path, and an optional query and fragment. The class also
  accepts other schemes, lower-cases scheme and host, removes dot segments and default
  ports, checks the port range and percent-encodes; none of that is modelled. So
  \<open>parse_url\<close> below gives what the constructor gives on a string that it parses to
  a URL in normal form (\<open>normal_url\<close>, defined with the notions of the properties),
  and rejects, as the constructor does, a string without a colon, which has no scheme;
  on other strings the two may differ, and a property about strings is stated for
  those two kinds only.\<close>

record url =
  scheme :: string
  authority :: string
  pathname :: string
  query :: "string option"
  fragment :: "string option"

definition href :: "url \<Rightarrow> string" where
  "href u = scheme u @ ''://'' @ authority u @ pathname u
     @ (case query u of None \<Rightarrow> [] | Some q \<Rightarrow> CHR ''?'' # q)
     @ (case fragment u of None \<Rightarrow> [] | Some f \<Rightarrow> CHR ''#'' # f)"

text \<open>The getters \<^verbatim>\<open>search\<close> and \<^verbatim>\<open>hash\<close>: empty when the component is
  absent or empty, else the component with its delimiter.\<close>

definition search :: "url \<Rightarrow> string" where
  "search u = (case query u of None \<Rightarrow> [] | Some q \<Rightarrow> if q = [] then [] else CHR ''?'' # q)"

definition hash :: "url \<Rightarrow> string" where
  "hash u = (case fragment u of None \<Rightarrow> [] | Some f \<Rightarrow> if f = [] then [] else CHR ''#'' # f)"

text \<open>The setters: an empty value removes the component, a leading delimiter is
  dropped; the path setter keeps the path rooted.\<close>

definition set_search :: "url \<Rightarrow> string \<Rightarrow> url" where
  "set_search u v =
     (if v = [] then u\<lparr>query := None\<rparr>
      else u\<lparr>query := Some (if startsWith v ''?'' then tl v else v)\<rparr>)"

definition set_hash :: "url \<Rightarrow> string \<Rightarrow> url" where
  "set_hash u v =
     (if v = [] then u\<lparr>fragment := None\<rparr>
      else u\<lparr>fragment := Some (if startsWith v ''#'' then tl v else v)\<rparr>)"

definition set_pathname :: "url \<Rightarrow> string \<Rightarrow> url" where
  "set_pathname u v = u\<lparr>pathname := (if startsWith v ''/'' then v else CHR ''/'' # v)\<rparr>"

text \<open>Cutting a string at the first occurrence of a character: what is before it, and
  what is after it when it occurs.\<close>

definition cut_at :: "char \<Rightarrow> string \<Rightarrow> string \<times> string option" where
  "cut_at c s =
     (takeWhile (\<lambda>x. x \<noteq> c) s,
      case dropWhile (\<lambda>x. x \<noteq> c) s of [] \<Rightarrow> None | _ # r \<Rightarrow> Some r)"

text \<open>\<^verbatim>\<open>new URL(s)\<close>; \<open>None\<close> is the \<^verbatim>\<open>TypeError\<close> the constructor throws.\<close>

definition parse_url :: "string \<Rightarrow> url option" where
  "parse_url s =
     (let (s1, frag) = cut_at (CHR ''#'') s;
          (s2, q) = cut_at (CHR ''?'') s1;
          sch = takeWhile (\<lambda>x. x \<noteq> CHR '':'') s2;
          rest = dropWhile (\<lambda>x. x \<noteq> CHR '':'') s2;
          r = drop 3 rest;
          auth = takeWhile (\<lambda>x. x \<noteq> CHR ''/'') r;
          path = dropWhile (\<lambda>x. x \<noteq> CHR ''/'') r
      in if (sch = ''http'' \<or> sch = ''https'') \<and> startsWith rest ''://'' \<and> auth \<noteq> []
         then Some \<lparr>scheme = sch, authority = auth,
                    pathname = (if path = [] then ''/'' else path),
                    query = q, fragment = frag\<rparr>
         else None)"

text \<open>The directory of a path: the path up to and including its last slash.\<close>

definition dirname :: "string \<Rightarrow> string" where
  "dirname p = rev (dropWhile (\<lambda>x. x \<noteq> CHR ''/'') (rev p))"

text \<open>\<^verbatim>\<open>new URL(rel, base)\<close>: an absolute \<open>rel\<close> stands for itself; one that
  starts with two slashes takes only the scheme of the base; one that starts with one
  slash replaces path, query and fragment of the base; anything else is relative to
  the directory of the base's path.\<close>

definition resolve_url :: "string \<Rightarrow> url \<Rightarrow> url option" where
  "resolve_url rel base =
     (case parse_url rel of
        Some u \<Rightarrow> Some u
      | None \<Rightarrow>
         (let (r1, frag) = cut_at (CHR ''#'') rel;
              (p, q) = cut_at (CHR ''?'') r1
          in if startsWith p ''//'' then parse_url (scheme base @ '':'' @ rel)
             else if startsWith p ''/'' then
               Some (base\<lparr>pathname := p, query := q, fragment := frag\<rparr>)
             else if p = [] then
               Some (base\<lparr>query := (case q of None \<Rightarrow> query base | Some x \<Rightarrow> Some x),
                          fragment := frag\<rparr>)
             else Some (base\<lparr>pathname := dirname (pathname base) @ p,
                             query := q, fragment := frag\<rparr>)))"

text \<open>In \<open>ensureTrailingSlash\<close>, \<^verbatim>\<open>new URL(issuer.href)\<close> is a copy of
  \<open>issuer\<close>: the constructor accepts every \<^verbatim>\<open>href\<close> the class serialises.\<close>

definition ensureTrailingSlash :: "url \<Rightarrow> url" where
  "ensureTrailingSlash issuer =
     (if endsWith (href issuer) ''/'' then issuer
      else (let withSlash = issuer
            in set_pathname withSlash
                 (if endsWith (pathname withSlash) ''/'' then pathname withSlash
                  else pathname withSlash @ ''/'')))"

definition invalid_url :: error where
  "invalid_url = TypeError ''Invalid URL''"

definition well_known_paths :: "string list" where
  "well_known_paths = [''.well-known/openid-configuration'', ''.well-known/oauth-authorization-server'']"

text \<open>A list of fallible results in order: the first error, or all the values.\<close>

fun sequence :: "(error + 'a) list \<Rightarrow> error + 'a list" where
  "sequence [] = Inr []"
| "sequence (x # xs) =
     (case x of
        Inl e \<Rightarrow> Inl e
      | Inr v \<Rightarrow> (case sequence xs of Inl e \<Rightarrow> Inl e | Inr vs \<Rightarrow> Inr (v # vs)))"

definition new_URL :: "string \<Rightarrow> error + url" where
  "new_URL s = (case parse_url s of None \<Rightarrow> Inl invalid_url | Some u \<Rightarrow> Inr u)"

definition new_URL_base :: "string \<Rightarrow> url \<Rightarrow> error + url" where
  "new_URL_base rel base = (case resolve_url rel base of None \<Rightarrow> Inl invalid_url | Some u \<Rightarrow> Inr u)"

definition buildWellKnownCandidates :: "url \<Rightarrow> error + url list" where
  "buildWellKnownCandidates issuer =
     (let issuerWithSlash = ensureTrailingSlash issuer
      in case sequence (map (\<lambda>path. new_URL (href issuerWithSlash @ path)) well_known_paths) of
           Inl e \<Rightarrow> Inl e
         | Inr scoped \<Rightarrow>
            (case sequence [new_URL_base ''/.well-known/openid-configuration'' issuer,
                            new_URL_base ''/.well-known/oauth-authorization-server'' issuer] of
               Inl e \<Rightarrow> Inl e
             | Inr root \<Rightarrow> Inr (scoped @ root)))"

subsection \<open>Metadata discovery\<close>

text \<open>What \<^verbatim>\<open>fetch\<close> gives: a rejection with the text of its error, or a
  response. \<open>body_json\<close> is what \<^verbatim>\<open>response.json()\<close> gives: the parsed object
  (the declared types \<^verbatim>\<open>OAuthMetadata\<close> and \<^verbatim>\<open>Record<string, unknown>\<close> are
  objects), or the text of the error when the body is not JSON.\<close>

record http_response =
  status :: nat
  statusText :: string
  body_json :: "string + jsobject"

datatype fetch_outcome = NetworkError string | Response http_response

text \<open>\<^verbatim>\<open>response.ok\<close>: the status is in the range 200 to 299.\<close>

definition ok :: "http_response \<Rightarrow> bool" where
  "ok r = (200 \<le> status r \<and> status r \<le> 299)"

text \<open>The discovery requests go to a server that may answer differently each time: the
  environment gives an outcome for the number of requests made so far and the URL
  requested. What discovery does to the world is the list of its requests and sleeps,
  in order; what it writes with \<^verbatim>\<open>console.error\<close> is left out.\<close>

type_synonym fetch_env = "nat \<Rightarrow> string \<Rightarrow> fetch_outcome"

datatype event = Fetched string | Slept int

record discovery_state =
  calls :: nat
  attempts :: "string list"
  events :: "event list"

definition initial_state :: discovery_state where
  "initial_state = \<lparr>calls = 0, attempts = [], events = []\<rparr>"

text \<open>One pass of the inner loop body: the request to one candidate. \<open>Inr\<close> is the
  \<^verbatim>\<open>return json\<close>, \<open>Inl\<close> the entry pushed to \<open>attempts\<close>, by the
  \<^verbatim>\<open>continue\<close> branch or by the \<^verbatim>\<open>catch\<close> block.\<close>

definition try_candidate :: "fetch_outcome \<Rightarrow> url \<Rightarrow> string + jsobject" where
  "try_candidate outcome candidate =
     (case outcome of
        NetworkError e \<Rightarrow> Inl (href candidate @ '' ('' @ e @ '')'')
      | Response response \<Rightarrow>
          if \<not> ok response then
            Inl (href candidate @ '' (HTTP '' @ show_nat (status response) @ '')'')
          else (case body_json response of
                  Inl e \<Rightarrow> Inl (href candidate @ '' ('' @ e @ '')'')
                | Inr json \<Rightarrow> Inr json))"

text \<open>The inner loop over the candidates of one round.\<close>

fun try_candidates ::
  "fetch_env \<Rightarrow> url list \<Rightarrow> discovery_state \<Rightarrow> jsobject option \<times> discovery_state" where
  "try_candidates fetch [] st = (None, st)"
| "try_candidates fetch (candidate # rest) st =
     (let st1 = st\<lparr>calls := calls st + 1, events := events st @ [Fetched (href candidate)]\<rparr>
      in case try_candidate (fetch (calls st) (href candidate)) candidate of
           Inr json \<Rightarrow> (Some json, st1)
         | Inl entry \<Rightarrow> try_candidates fetch rest (st1\<lparr>attempts := attempts st1 @ [entry]\<rparr>))"

text \<open>The outer loop, from round \<open>attempt\<close> on, and the \<^verbatim>\<open>throw\<close> after it.\<close>

function discovery_rounds ::
  "config \<Rightarrow> fetch_env \<Rightarrow> url \<Rightarrow> int \<Rightarrow> discovery_state
     \<Rightarrow> (error + jsobject) \<times> discovery_state" where
  "discovery_rounds cfg fetch issuer attempt st =
     (if attempt \<le> MCP_OAUTH_DISCOVERY_RETRIES cfg then
        (case buildWellKnownCandidates issuer of
           Inl e \<Rightarrow> (Inl e, st)
         | Inr candidates \<Rightarrow>
            (case try_candidates fetch candidates st of
               (Some json, st1) \<Rightarrow> (Inr json, st1)
             | (None, st1) \<Rightarrow>
                 discovery_rounds cfg fetch issuer (attempt + 1)
                   (if attempt < MCP_OAUTH_DISCOVERY_RETRIES cfg
                    then st1\<lparr>events := events st1 @ [Slept (MCP_OAUTH_DISCOVERY_RETRY_DELAY_MS cfg)]\<rparr>
                    else st1)))
      else (Inl (Error (''Unable to load OAuth metadata from issuer '' @ href issuer
                          @ ''. Tried: '' @ join ''; '' (attempts st))), st))"
  by pat_completeness auto
termination
  by (relation "measure (\<lambda>(cfg, fetch, issuer, attempt, st).
        nat (MCP_OAUTH_DISCOVERY_RETRIES cfg + 1 - attempt))") auto

declare discovery_rounds.simps [simp del]

definition discoverOAuthMetadata ::
  "config \<Rightarrow> fetch_env \<Rightarrow> url \<Rightarrow> (error + jsobject) \<times> discovery_state" where
  "discoverOAuthMetadata cfg fetch issuer = discovery_rounds cfg fetch issuer 1 initial_state"

subsection \<open>Audience check\<close>

fun audienceMatches :: "jsval \<Rightarrow> string option \<Rightarrow> bool" where
  "audienceMatches aud expected =
     (if expected = None \<or> expected = Some [] then True
      else (case aud of
              JStr s \<Rightarrow> Some s = expected
            | JArr items \<Rightarrow> list_ex (\<lambda>item. audienceMatches item expected) items
            | _ \<Rightarrow> False))"

declare audienceMatches.simps [simp del]

subsection \<open>Issuer rewriting\<close>

text \<open>The inner function \<open>remap\<close>, with the \<open>issuerUrl\<close> it closes over.\<close>

definition remap :: "url \<Rightarrow> jsval \<Rightarrow> error + jsval" where
  "remap issuerUrl v =
     (case v of
        JStr s \<Rightarrow>
          if s = [] then Inr JUndefined
          else (case new_URL s of
                  Inl e \<Rightarrow> Inl e
                | Inr original \<Rightarrow>
                   (case new_URL_base (pathname original) issuerUrl of
                      Inl e \<Rightarrow> Inl e
                    | Inr rewritten \<Rightarrow>
                        Inr (JStr (href (set_hash (set_search rewritten (search original))
                                                  (hash original))))))
      | _ \<Rightarrow> Inr JUndefined)"






subsection \<open>Token verifiers\<close>

record TokenVerifierResult =
  token :: string
  clientId :: string
  scopes :: "string list"
  expiresAt :: "int option"

text \<open>A verifier is a closure; it is represented by the values it closes over: the
  static token, or the arguments of \<open>buildJwtVerifier\<close>, or those of
  \<open>buildIntrospectionVerifier\<close>. The values are stored as the caller passes them,
  whatever their run-time type.\<close>

datatype TokenVerifier =
    BearerVerifier string
  | JwtVerifier url jsval "string option"
  | IntrospectionVerifier jsval "string option" "string option" url

text \<open>The POST request of the introspection verifier: its URL, the two halves of the
  Basic credentials before encoding, and the form fields.\<close>

record introspection_request =
  request_url :: jsval
  basic_user :: "string option"
  basic_password :: "string option"
  form :: "(string \<times> string) list"

text \<open>What a verification call reads from the world: the clock
  (\<^verbatim>\<open>Date.now()\<close>, in milliseconds), the answer to the introspection request, and
  the library call \<^verbatim>\<open>jwtVerify(token, JWKS, {issuer, audience})\<close>, which gives the
  payload or the message of the error it throws.\<close>

record world =
  now_ms :: int
  post :: "introspection_request \<Rightarrow> fetch_outcome"
  jwtVerify :: "url \<Rightarrow> string \<Rightarrow> jsval \<Rightarrow> string option \<Rightarrow> string + jsobject"

definition extractClientId :: "jsobject \<Rightarrow> string" where
  "extractClientId payload =
     (let clientId = nc (nc (nc (get_prop payload ''client_id'') (get_prop payload ''azp''))
                            (get_prop payload ''cid''))
                        (get_prop payload ''sub'')
      in case clientId of JStr s \<Rightarrow> s | _ \<Rightarrow> ''unknown-client'')"

text \<open>\<^verbatim>\<open>filter(Boolean)\<close> on strings keeps the non-empty ones; the type guard of the
  array branch keeps the strings.\<close>

definition strings_of :: "jsval list \<Rightarrow> string list" where
  "strings_of vs = List.map_filter (\<lambda>v. case v of JStr s \<Rightarrow> Some s | _ \<Rightarrow> None) vs"

definition extractScopes :: "jsobject \<Rightarrow> string list" where
  "extractScopes payload =
     (let scopeClaim = nc (get_prop payload ''scope'') (get_prop payload ''scp'')
      in case scopeClaim of
           JStr s \<Rightarrow> filter (\<lambda>w. w \<noteq> []) (split_on (CHR '' '') s)
         | JArr vs \<Rightarrow> strings_of vs
         | _ \<Rightarrow> [])"

definition number_or_undefined :: "jsval \<Rightarrow> int option" where
  "number_or_undefined v = (case v of JNum n \<Rightarrow> Some n | _ \<Rightarrow> None)"

text \<open>The \<^verbatim>\<open>catch\<close> block of the JWT verifier, on the message of the error.\<close>

definition classify_jwt_error :: "string \<Rightarrow> error" where
  "classify_jwt_error message =
     (if str_includes message ''expired'' then InvalidTokenError ''Token has expired''
      else if str_includes message ''audience'' then InvalidTokenError ''Token audience does not match''
      else if str_includes message ''issuer'' then InvalidTokenError ''Token issuer does not match''
      else if str_includes message ''signature'' then InvalidTokenError ''Invalid token signature''
      else InvalidTokenError ''Token validation failed'')"

text \<open>The body of the introspection verifier after the request: \<open>data\<close> is the
  parsed response, \<open>configuredClientId\<close> the client id the verifier closes over
  (\<open>buildOAuthAuthContext\<close> builds this verifier only when the client id is
  configured, so the \<open>None\<close> alternative is never reached from there).\<close>

definition introspection_result ::
  "config \<Rightarrow> string option \<Rightarrow> string \<Rightarrow> fetch_outcome \<Rightarrow> error + TokenVerifierResult" where
  "introspection_result cfg configuredClientId tok outcome =
     (case outcome of
        NetworkError e \<Rightarrow> Inl (InvalidTokenError ''Token introspection failed'')
      | Response response \<Rightarrow>
          if \<not> ok response then
            Inl (InvalidTokenError (''Token introspection failed: HTTP '' @ show_nat (status response)))
          else (case body_json response of
                  Inl e \<Rightarrow> Inl (InvalidTokenError ''Token introspection failed'')
                | Inr data \<Rightarrow>
                    if get_prop data ''active'' \<noteq> JBool True then
                      Inl (InvalidTokenError ''Token is not active'')
                    else if \<not> audienceMatches (get_prop data ''aud'') (MCP_OAUTH_AUDIENCE cfg) then
                      Inl (InvalidTokenError ''Token audience does not match MCP_OAUTH_AUDIENCE'')
                    else Inr \<lparr>token = tok,
                              clientId = (case get_prop data ''client_id'' of
                                            JStr s \<Rightarrow> s
                                          | _ \<Rightarrow> (case configuredClientId of Some c \<Rightarrow> c | None \<Rightarrow> [])),
                              scopes = (case get_prop data ''scope'' of
                                          JStr s \<Rightarrow> split_on (CHR '' '') s
                                        | _ \<Rightarrow> []),
                              expiresAt = number_or_undefined (get_prop data ''exp'')\<rparr>))"

text \<open>\<^verbatim>\<open>verifier.verifyAccessToken(token)\<close> for each of the three closures.\<close>

fun verifyAccessToken ::
  "config \<Rightarrow> world \<Rightarrow> TokenVerifier \<Rightarrow> string \<Rightarrow> error + TokenVerifierResult" where
  "verifyAccessToken cfg w (BearerVerifier tok) accessToken =
     (if accessToken \<noteq> tok then Inl (InvalidTokenError ''Invalid token'')
      else Inr \<lparr>token = accessToken, clientId = ''local-user'', scopes = [''mcp:tools''],
                expiresAt = Some (now_ms w div 1000 + 24 * 60 * 60)\<rparr>)"
| "verifyAccessToken cfg w (JwtVerifier jwksUrl expectedIssuer expectedAudience) tok =
     (case jwtVerify w jwksUrl tok expectedIssuer expectedAudience of
        Inr payload \<Rightarrow>
          Inr \<lparr>token = tok, clientId = extractClientId payload, scopes = extractScopes payload,
               expiresAt = number_or_undefined (get_prop payload ''exp'')\<rparr>
      | Inl message \<Rightarrow> Inl (classify_jwt_error message))"
| "verifyAccessToken cfg w (IntrospectionVerifier introspectionEndpoint cid secret mcpPublicUrl) tok =
     introspection_result cfg cid tok
       (post w \<lparr>request_url = introspectionEndpoint, basic_user = cid, basic_password = secret,
                form = [(''token'', tok), (''token_type_hint'', ''access_token''),
                        (''resource'', href mcpPublicUrl)]\<rparr>)"

subsection \<open>Building the context\<close>

text \<open>\<open>middleware\<close> is \<^verbatim>\<open>requireBearerAuth({verifier, ...})\<close> of the SDK, represented
  by the verifier it wraps; \<open>None\<close> is \<^verbatim>\<open>null\<close>.\<close>

record AuthContext =
  mode :: string
  middleware :: "TokenVerifier option"
  oauthMetadata :: "jsobject option"
  validationMethod :: "validation_method option"

definition msg_bearer_token_required :: string where
  "msg_bearer_token_required =
     ''MCP_BEARER_TOKEN (or BEARER_TOKEN) is required when auth mode is bearer.''"

definition buildBearerAuthContext :: "config \<Rightarrow> error + AuthContext" where
  "buildBearerAuthContext cfg =
     (case MCP_BEARER_TOKEN cfg of
        None \<Rightarrow> Inl (Error msg_bearer_token_required)
      | Some tok \<Rightarrow>
          if tok = [] then Inl (Error msg_bearer_token_required)
          else Inr \<lparr>mode = ''bearer'', middleware = Some (BearerVerifier tok),
                    oauthMetadata = None, validationMethod = None\<rparr>)"


definition nonempty :: "string option \<Rightarrow> bool" where
  "nonempty v = (v \<noteq> None \<and> v \<noteq> Some [])"





subsection \<open>Notions used to state the properties\<close>

text \<open>The configuration the repository's tests start from (\<open>mockConfig\<close> in
  src/auth/auth.test.ts), and a world for concrete verification calls.\<close>

definition mockConfig :: config where
  "mockConfig =
     \<lparr>MCP_AUTH_MODE = ''none'', MCP_BEARER_TOKEN = None,
      MCP_PUBLIC_URL = ''http://localhost:3000/mcp'', env_MCP_PUBLIC_URL = None,
      MCP_OAUTH_INTERNAL_ISSUER_URL = None, MCP_OAUTH_PUBLIC_ISSUER_URL = None,
      MCP_OAUTH_CLIENT_ID = None, MCP_OAUTH_CLIENT_SECRET = None,
      MCP_OAUTH_INTROSPECTION_URL = None, MCP_OAUTH_AUDIENCE = None,
      MCP_OAUTH_VALIDATION_METHOD = Auto, MCP_OAUTH_JWKS_URL = None,
      MCP_OAUTH_EXPECTED_ISSUER = None, MCP_OAUTH_DISCOVERY_RETRIES = 1,
      MCP_OAUTH_DISCOVERY_RETRY_DELAY_MS = 100\<rparr>"

definition mockWorld :: world where
  "mockWorld =
     \<lparr>now_ms = 1700000000123,
      post = (\<lambda>request. NetworkError ''fetch failed''),
      jwtVerify = (\<lambda>jwks tok iss aud. Inl ''signature verification failed'')\<rparr>"

text \<open>The discovery document of the tests (\<open>mockOAuthMetadata\<close>), a server that
  answers every request with it, and one that answers every request with 404.\<close>

definition mockOAuthMetadata :: jsobject where
  "mockOAuthMetadata =
     [(''issuer'', JStr ''http://localhost:8080/realms/test''),
      (''authorization_endpoint'', JStr ''http://localhost:8080/realms/test/protocol/openid-connect/auth''),
      (''token_endpoint'', JStr ''http://localhost:8080/realms/test/protocol/openid-connect/token''),
      (''introspection_endpoint'',
         JStr ''http://localhost:8080/realms/test/protocol/openid-connect/token/introspect''),
      (''jwks_uri'', JStr ''http://localhost:8080/realms/test/protocol/openid-connect/certs'')]"

definition mockFetch :: fetch_env where
  "mockFetch = (\<lambda>n u. Response \<lparr>status = 200, statusText = ''OK'', body_json = Inr mockOAuthMetadata\<rparr>)"

definition notFoundFetch :: fetch_env where
  "notFoundFetch =
     (\<lambda>n u. Response \<lparr>status = 404, statusText = ''Not Found'',
                      body_json = Inl ''SyntaxError: Unexpected token''\<rparr>)"


text \<open>The specification's wording for the array case of the audience check: the
  expected value is present anywhere in the array, at any depth.\<close>

fun spec_present_anywhere :: "string \<Rightarrow> jsval \<Rightarrow> bool" where
  "spec_present_anywhere e (JArr items) =
     list_ex (\<lambda>item. item = JStr e \<or> spec_present_anywhere e item) items"
| "spec_present_anywhere e v = False"

text \<open>A claim of a payload counts as present when it is neither \<^verbatim>\<open>undefined\<close> nor
  \<^verbatim>\<open>null\<close>.\<close>

definition present :: "jsval \<Rightarrow> bool" where
  "present v = (v \<noteq> JUndefined \<and> v \<noteq> JNull)"

definition client_id_claims :: "string list" where
  "client_id_claims = [''client_id'', ''azp'', ''cid'', ''sub'']"



text \<open>The URLs the constructor gives: an \<^verbatim>\<open>http\<close> or \<^verbatim>\<open>https\<close> scheme, a
  non-empty authority, a rooted path, and no delimiter inside a component that would
  end it.\<close>

definition wf_url :: "url \<Rightarrow> bool" where
  "wf_url u =
     ((scheme u = ''http'' \<or> scheme u = ''https'')
      \<and> authority u \<noteq> []
      \<and> CHR ''/'' \<notin> set (authority u) \<and> CHR ''?'' \<notin> set (authority u)
      \<and> CHR ''#'' \<notin> set (authority u)
      \<and> startsWith (pathname u) ''/''
      \<and> CHR ''?'' \<notin> set (pathname u) \<and> CHR ''#'' \<notin> set (pathname u)
      \<and> (case query u of None \<Rightarrow> True | Some q \<Rightarrow> CHR ''#'' \<notin> set q))"

















text \<open>The URL that serialises as the \<^verbatim>\<open>href\<close> of \<open>u\<close> followed by \<open>sfx\<close>: the
  text lands in the last component that is there.\<close>

definition append_to_href :: "url \<Rightarrow> string \<Rightarrow> url" where
  "append_to_href u sfx =
     (case fragment u of
        Some f \<Rightarrow> u\<lparr>fragment := Some (f @ sfx)\<rparr>
      | None \<Rightarrow>
         (case query u of
            Some q \<Rightarrow> u\<lparr>query := Some (q @ sfx)\<rparr>
          | None \<Rightarrow> u\<lparr>pathname := pathname u @ sfx\<rparr>))"

text \<open>The issuer of the tests.\<close>

definition mockIssuer :: url where
  "mockIssuer =
     \<lparr>scheme = ''http'', authority = ''localhost:8080'', pathname = ''/realms/test'',
      query = None, fragment = None\<rparr>"





text \<open>The public issuer of the oauth test configuration, parsed.\<close>

definition mockPublicIssuer :: url where
  "mockPublicIssuer =
     \<lparr>scheme = ''https'', authority = ''auth.example.com'', pathname = ''/realms/test'',
      query = None, fragment = None\<rparr>"

text \<open>The notions of the discovery properties. An outcome is usable when it is a
  response with a status in the 2xx range whose body parses; the specification counts
  as a failure a network error or a response with another status.\<close>

definition usable_json :: "fetch_outcome \<Rightarrow> jsobject option" where
  "usable_json outcome =
     (case outcome of
        NetworkError e \<Rightarrow> None
      | Response response \<Rightarrow>
          if ok response then (case body_json response of Inl e \<Rightarrow> None | Inr json \<Rightarrow> Some json)
          else None)"

definition unusable :: "fetch_outcome \<Rightarrow> bool" where
  "unusable outcome = (usable_json outcome = None)"

definition spec_failure :: "fetch_outcome \<Rightarrow> bool" where
  "spec_failure outcome =
     (case outcome of NetworkError e \<Rightarrow> True | Response response \<Rightarrow> \<not> ok response)"

text \<open>The reason recorded for an unusable outcome: the status, or the text of the error.\<close>

definition failure_reason :: "fetch_outcome \<Rightarrow> string" where
  "failure_reason outcome =
     (case outcome of
        NetworkError e \<Rightarrow> e
      | Response response \<Rightarrow>
          if \<not> ok response then ''HTTP '' @ show_nat (status response)
          else (case body_json response of Inl e \<Rightarrow> e | Inr json \<Rightarrow> []))"

text \<open>One round in which every candidate is unusable, the requests being numbered from
  \<open>i\<close>: the condition, the entries recorded, and the requests made.\<close>

fun round_unusable :: "fetch_env \<Rightarrow> nat \<Rightarrow> url list \<Rightarrow> bool" where
  "round_unusable fetch i [] = True"
| "round_unusable fetch i (c # cs) =
     (unusable (fetch i (href c)) \<and> round_unusable fetch (Suc i) cs)"

fun round_attempts :: "fetch_env \<Rightarrow> nat \<Rightarrow> url list \<Rightarrow> string list" where
  "round_attempts fetch i [] = []"
| "round_attempts fetch i (c # cs) =
     (href c @ '' ('' @ failure_reason (fetch i (href c)) @ '')'') # round_attempts fetch (Suc i) cs"

definition round_events :: "url list \<Rightarrow> event list" where
  "round_events cs = map (\<lambda>c. Fetched (href c)) cs"

text \<open>The same for \<open>n\<close> rounds in a row, each followed by a sleep.\<close>

fun rounds_unusable :: "fetch_env \<Rightarrow> nat \<Rightarrow> url list \<Rightarrow> nat \<Rightarrow> bool" where
  "rounds_unusable fetch i cs 0 = True"
| "rounds_unusable fetch i cs (Suc n) =
     (round_unusable fetch i cs \<and> rounds_unusable fetch (i + length cs) cs n)"

fun failed_rounds_attempts :: "fetch_env \<Rightarrow> nat \<Rightarrow> url list \<Rightarrow> nat \<Rightarrow> string list" where
  "failed_rounds_attempts fetch i cs 0 = []"
| "failed_rounds_attempts fetch i cs (Suc n) =
     round_attempts fetch i cs @ failed_rounds_attempts fetch (i + length cs) cs n"

fun sleeping_rounds_events :: "nat \<Rightarrow> int \<Rightarrow> url list \<Rightarrow> event list" where
  "sleeping_rounds_events 0 delay cs = []"
| "sleeping_rounds_events (Suc n) delay cs =
     round_events cs @ [Slept delay] @ sleeping_rounds_events n delay cs"

text \<open>A server that answers every request with status 200 and a page that is not
  JSON, and one that answers the sixth request with the discovery document and every
  other request with 404.\<close>

definition htmlFetch :: fetch_env where
  "htmlFetch =
     (\<lambda>n u. Response \<lparr>status = 200, statusText = ''OK'',
                      body_json = Inl ''SyntaxError: Unexpected token <''\<rparr>)"

definition lateFetch :: fetch_env where
  "lateFetch = (\<lambda>n u. if n = 5 then mockFetch n u else notFoundFetch n u)"

section \<open>Properties\<close>

subsection \<open>Evaluating the normal form\<close>


subsection \<open>Validation method resolution\<close>

text \<open>C1: the decision table of \<open>resolveValidationMethod\<close>. Forced introspection
  succeeds exactly when client credentials and an introspection endpoint are both there;
  without credentials the error names the two credential variables, with credentials but
  without an endpoint it names the introspection endpoint and its override variable.
  Forced jwt succeeds exactly when a JWKS URI is there, and otherwise the error names
  \<^verbatim>\<open>MCP_OAUTH_JWKS_URL\<close>. Auto gives introspection when credentials and endpoint are
  both there, else jwt when a JWKS URI is there, else one of two errors, which are
  different strings: one for credentials without an endpoint, one for no credentials
  and no JWKS URI.\<close>

theorem resolveValidationMethod_table:
  "((resolveValidationMethod ForceIntrospection c i j = Inr Introspection) = (c \<and> i))
   \<and> resolveValidationMethod ForceIntrospection c i j \<noteq> Inr Jwt
   \<and> (\<not> c \<longrightarrow> (\<exists>m. resolveValidationMethod ForceIntrospection c i j = Inl (Error m)
         \<and> str_includes m ''MCP_OAUTH_CLIENT_ID'' \<and> str_includes m ''MCP_OAUTH_CLIENT_SECRET''
         \<and> \<not> str_includes m ''ndpoint''))
   \<and> (c \<and> \<not> i \<longrightarrow> (\<exists>m. resolveValidationMethod ForceIntrospection c i j = Inl (Error m)
         \<and> str_includes m ''Introspection endpoint not available''
         \<and> str_includes m ''MCP_OAUTH_INTROSPECTION_URL''
         \<and> \<not> str_includes m ''MCP_OAUTH_CLIENT''))
   \<and> ((resolveValidationMethod ForceJwt c i j = Inr Jwt) = j)
   \<and> resolveValidationMethod ForceJwt c i j \<noteq> Inr Introspection
   \<and> (\<not> j \<longrightarrow> (\<exists>m. resolveValidationMethod ForceJwt c i j = Inl (Error m)
         \<and> str_includes m ''MCP_OAUTH_JWKS_URL''))
   \<and> (c \<and> i \<longrightarrow> resolveValidationMethod Auto c i j = Inr Introspection)
   \<and> (\<not> (c \<and> i) \<and> j \<longrightarrow> resolveValidationMethod Auto c i j = Inr Jwt)
   \<and> (c \<and> \<not> i \<and> \<not> j \<longrightarrow>
        resolveValidationMethod Auto c i j = Inl (Error msg_auto_no_endpoint))
   \<and> (\<not> c \<and> \<not> j \<longrightarrow> resolveValidationMethod Auto c i j = Inl (Error msg_auto_nothing))
   \<and> msg_auto_no_endpoint \<noteq> msg_auto_nothing
   \<and> str_includes msg_auto_no_endpoint
        ''client credentials provided but no introspection endpoint''
   \<and> str_includes msg_auto_nothing ''no client credentials and no JWKS URI''"
proof -
  have m1: "str_includes msg_credentials_required ''MCP_OAUTH_CLIENT_ID''"
    "str_includes msg_credentials_required ''MCP_OAUTH_CLIENT_SECRET''"
    "\<not> str_includes msg_credentials_required ''ndpoint''"
    unfolding msg_credentials_required_def by simp_all
  have m2: "str_includes msg_no_introspection_endpoint ''Introspection endpoint not available''"
    "str_includes msg_no_introspection_endpoint ''MCP_OAUTH_INTROSPECTION_URL''"
    "\<not> str_includes msg_no_introspection_endpoint ''MCP_OAUTH_CLIENT''"
    unfolding msg_no_introspection_endpoint_def by simp_all
  have m3: "str_includes msg_no_jwks_uri ''MCP_OAUTH_JWKS_URL''"
    unfolding msg_no_jwks_uri_def by simp
  have m4: "msg_auto_no_endpoint \<noteq> msg_auto_nothing"
    unfolding msg_auto_no_endpoint_def msg_auto_nothing_def by simp
  have m5: "str_includes msg_auto_no_endpoint
      ''client credentials provided but no introspection endpoint''"
    unfolding msg_auto_no_endpoint_def by simp
  have m6: "str_includes msg_auto_nothing ''no client credentials and no JWKS URI''"
    unfolding msg_auto_nothing_def by simp
  show ?thesis
    using m1 m2 m3 m4 m5 m6 by (simp add: resolveValidationMethod_def)
qed

theorem resolveValidationMethod_table_witness:
  "resolveValidationMethod ForceIntrospection False True True = Inl (Error msg_credentials_required)
   \<and> resolveValidationMethod ForceIntrospection True False True = Inl (Error msg_no_introspection_endpoint)
   \<and> resolveValidationMethod ForceJwt True True False = Inl (Error msg_no_jwks_uri)
   \<and> resolveValidationMethod Auto True True True = Inr Introspection
   \<and> resolveValidationMethod Auto False True True = Inr Jwt
   \<and> resolveValidationMethod Auto True False False = Inl (Error msg_auto_no_endpoint)
   \<and> resolveValidationMethod Auto False True False = Inl (Error msg_auto_nothing)"
  using resolveValidationMethod_table [of False True True]
    resolveValidationMethod_table [of True False True]
    resolveValidationMethod_table [of True True False]
    resolveValidationMethod_table [of True True True]
    resolveValidationMethod_table [of True False False]
    resolveValidationMethod_table [of False True False]
  by (simp add: resolveValidationMethod_def)

subsection \<open>Bearer mode\<close>

text \<open>C3: in bearer mode, when no static token is configured (undefined or empty),
  building the context fails with an error that names \<^verbatim>\<open>MCP_BEARER_TOKEN\<close>, and no
  context, hence no verifier, is built. When a token is configured, the context holds
  the verifier for it; verification of a presented string succeeds exactly when the
  string equals the configured token, the success has client id \<^verbatim>\<open>local-user\<close>,
  scopes \<^verbatim>\<open>["mcp:tools"]\<close> and expiry 24 hours after the current time in seconds, and
  every other string fails with an \<^verbatim>\<open>InvalidTokenError\<close>.\<close>

theorem bearer_mode:
  "(\<not> nonempty (MCP_BEARER_TOKEN cfg) \<longrightarrow>
      buildBearerAuthContext cfg = Inl (Error msg_bearer_token_required))
   \<and> str_includes msg_bearer_token_required ''MCP_BEARER_TOKEN''
   \<and> (MCP_BEARER_TOKEN cfg = Some tok \<and> tok \<noteq> [] \<longrightarrow>
        buildBearerAuthContext cfg =
          Inr \<lparr>mode = ''bearer'', middleware = Some (BearerVerifier tok),
               oauthMetadata = None, validationMethod = None\<rparr>
        \<and> (\<forall>presented. (\<exists>r. verifyAccessToken cfg w (BearerVerifier tok) presented = Inr r)
                          = (presented = tok))
        \<and> verifyAccessToken cfg w (BearerVerifier tok) tok =
            Inr \<lparr>token = tok, clientId = ''local-user'', scopes = [''mcp:tools''],
                 expiresAt = Some (now_ms w div 1000 + 24 * 60 * 60)\<rparr>
        \<and> (\<forall>presented. presented \<noteq> tok \<longrightarrow>
              (\<exists>m. verifyAccessToken cfg w (BearerVerifier tok) presented
                     = Inl (InvalidTokenError m))))"
proof -
  have "str_includes msg_bearer_token_required ''MCP_BEARER_TOKEN''"
    unfolding msg_bearer_token_required_def by simp
  then show ?thesis
    by (auto simp: buildBearerAuthContext_def nonempty_def split: option.splits)
qed

theorem bearer_mode_witness:
  "buildBearerAuthContext mockConfig = Inl (Error msg_bearer_token_required)
   \<and> buildBearerAuthContext (mockConfig\<lparr>MCP_BEARER_TOKEN := Some ''abc123''\<rparr>) =
       Inr \<lparr>mode = ''bearer'', middleware = Some (BearerVerifier ''abc123''),
            oauthMetadata = None, validationMethod = None\<rparr>
   \<and> verifyAccessToken (mockConfig\<lparr>MCP_BEARER_TOKEN := Some ''abc123''\<rparr>) mockWorld
        (BearerVerifier ''abc123'') ''abc123'' =
       Inr \<lparr>token = ''abc123'', clientId = ''local-user'', scopes = [''mcp:tools''],
            expiresAt = Some 1700086400\<rparr>
   \<and> (\<exists>m. verifyAccessToken (mockConfig\<lparr>MCP_BEARER_TOKEN := Some ''abc123''\<rparr>) mockWorld
        (BearerVerifier ''abc123'') ''wrong'' = Inl (InvalidTokenError m))"
  using bearer_mode [of mockConfig "''abc123''" mockWorld]
    bearer_mode [of "mockConfig\<lparr>MCP_BEARER_TOKEN := Some ''abc123''\<rparr>" "''abc123''" mockWorld]
  by (simp add: mockConfig_def mockWorld_def nonempty_def)

subsection \<open>Audience check\<close>

lemma audienceMatches_no_expectation:
  "audienceMatches aud None" "audienceMatches aud (Some [])"
  by (simp_all add: audienceMatches.simps)

lemma audienceMatches_present:
  "e \<noteq> [] \<Longrightarrow> audienceMatches (JArr items) (Some e) = spec_present_anywhere e (JArr items)"
proof (induction e "JArr items" arbitrary: items rule: spec_present_anywhere.induct)
  case (1 e items)
  have "audienceMatches item (Some e) = (item = JStr e \<or> spec_present_anywhere e item)"
    if "item \<in> set items" for item
  proof (cases item)
    case (JArr xs)
    then show ?thesis using 1 that by auto
  qed (use 1 in \<open>auto simp: audienceMatches.simps\<close>)
  then show ?case
    using 1 by (simp add: audienceMatches.simps [of "JArr items"] list_ex_iff)
qed

text \<open>C4: \<open>audienceMatches\<close> is true when the expected audience is undefined or
  empty; for a non-empty expected audience it is true for a string exactly when the
  string equals it, true for an array exactly when the expected value is present
  anywhere in the array (for an array without nested arrays: when it is an element),
  and false for every value that is neither a string nor an array.\<close>

theorem audienceMatches_cases:
  "audienceMatches aud None
   \<and> audienceMatches aud (Some [])
   \<and> (e \<noteq> [] \<longrightarrow> audienceMatches (JStr s) (Some e) = (s = e))
   \<and> (e \<noteq> [] \<longrightarrow> audienceMatches (JArr items) (Some e) = spec_present_anywhere e (JArr items))
   \<and> (e \<noteq> [] \<and> (\<forall>item \<in> set items. \<forall>xs. item \<noteq> JArr xs) \<longrightarrow>
        audienceMatches (JArr items) (Some e) = (JStr e \<in> set items))
   \<and> (e \<noteq> [] \<and> (\<forall>t. aud \<noteq> JStr t) \<and> (\<forall>xs. aud \<noteq> JArr xs) \<longrightarrow>
        \<not> audienceMatches aud (Some e))"
proof -
  have flat: "spec_present_anywhere e (JArr items) = (JStr e \<in> set items)"
    if "\<forall>item \<in> set items. \<forall>xs. item \<noteq> JArr xs"
  proof -
    have "\<not> spec_present_anywhere e item" if "\<forall>xs. item \<noteq> JArr xs" for item
      using that by (cases item) simp_all
    with that show ?thesis by (auto simp: list_ex_iff)
  qed
  have other: "\<not> audienceMatches aud (Some e)"
    if "e \<noteq> []" "\<forall>t. aud \<noteq> JStr t" "\<forall>xs. aud \<noteq> JArr xs"
    using that by (cases aud) (simp_all add: audienceMatches.simps)
  have str: "audienceMatches (JStr s) (Some e) = (s = e)" if "e \<noteq> []"
    using that by (simp add: audienceMatches.simps)
  show ?thesis
    using audienceMatches_no_expectation [of aud] audienceMatches_present [of e items]
      flat other str
    by simp
qed

theorem audienceMatches_cases_witness:
  "audienceMatches (JStr ''api'') (Some ''api'')
   \<and> \<not> audienceMatches (JStr ''other'') (Some ''api'')
   \<and> audienceMatches (JArr [JStr ''web'', JStr ''api'']) (Some ''api'')
   \<and> \<not> audienceMatches (JArr [JStr ''web'', JNum 7]) (Some ''api'')
   \<and> \<not> audienceMatches (JNum 7) (Some ''api'')
   \<and> audienceMatches (JNum 7) None"
  using audienceMatches_cases [of "JNum 7" "''api''" "''api''" "[JStr ''web'', JStr ''api'']"]
    audienceMatches_cases [of "JNum 7" "''api''" "''other''" "[JStr ''web'', JNum 7]"]
  by simp

subsection \<open>Mode resolution\<close>




subsection \<open>Client id extraction\<close>

lemma nc_present: "nc x y = (if present x then x else y)"
  by (simp add: nc_def present_def)

lemma extractClientId_find:
  "extractClientId payload =
     (case find present (map (get_prop payload) client_id_claims) of
        Some (JStr s) \<Rightarrow> s
      | _ \<Rightarrow> ''unknown-client'')"
proof -
  have "(case v of JStr s \<Rightarrow> s | _ \<Rightarrow> ''unknown-client'') = ''unknown-client''"
    if "\<not> present v" for v
    using that by (cases v) (simp_all add: present_def)
  then show ?thesis
    unfolding extractClientId_def client_id_claims_def Let_def nc_present
    by simp
qed

text \<open>C8, as the specification states it, fails: a claim that is present but holds no
  string does prevent a later claim from being returned. With \<^verbatim>\<open>client_id\<close> a number
  and \<^verbatim>\<open>sub\<close> a string, the result is the sentinel, not the subject.\<close>

theorem extractClientId_counterexample:
  "get_prop [(''client_id'', JNum 123), (''sub'', JStr ''user-1'')] ''client_id'' = JNum 123
   \<and> get_prop [(''client_id'', JNum 123), (''sub'', JStr ''user-1'')] ''sub'' = JStr ''user-1''
   \<and> extractClientId [(''client_id'', JNum 123), (''sub'', JStr ''user-1'')] = ''unknown-client''
   \<and> extractClientId [(''client_id'', JNum 123), (''sub'', JStr ''user-1'')] \<noteq> ''user-1''"
  by (simp add: extractClientId_def get_prop_def nc_def)

text \<open>C8, amended: \<open>extractClientId\<close> takes the first of the claims
  \<^verbatim>\<open>client_id\<close>, \<^verbatim>\<open>azp\<close>, \<^verbatim>\<open>cid\<close>, \<^verbatim>\<open>sub\<close>, in this order, that is
  neither undefined nor null, and returns it when it is a string and
  \<^verbatim>\<open>unknown-client\<close> otherwise. So a claim holding a string is returned when every
  claim before it is absent or null, and the sentinel is returned when all four are
  absent or null.\<close>

theorem extractClientId_first_present:
  "extractClientId payload =
     (case find present (map (get_prop payload) client_id_claims) of
        Some (JStr s) \<Rightarrow> s
      | _ \<Rightarrow> ''unknown-client'')
   \<and> (k \<in> set client_id_claims \<and> get_prop payload k = JStr s
        \<and> (\<forall>k' \<in> set (takeWhile (\<lambda>x. x \<noteq> k) client_id_claims). \<not> present (get_prop payload k'))
        \<longrightarrow> extractClientId payload = s)
   \<and> ((\<forall>k \<in> set client_id_claims. \<not> present (get_prop payload k))
        \<longrightarrow> extractClientId payload = ''unknown-client'')"
proof -
  have first: "extractClientId payload = s"
    if k: "k \<in> set client_id_claims" and v: "get_prop payload k = JStr s"
      and e: "\<forall>k' \<in> set (takeWhile (\<lambda>x. x \<noteq> k) client_id_claims). \<not> present (get_prop payload k')"
  proof -
    have p: "present (JStr s)" by (simp add: present_def)
    from k consider "k = ''client_id''" | "k = ''azp''" | "k = ''cid''" | "k = ''sub''"
      by (auto simp: client_id_claims_def)
    then show ?thesis
    proof cases
      case 1
      then show ?thesis using v p by (simp add: extractClientId_find client_id_claims_def)
    next
      case 2
      then show ?thesis using v p e by (simp add: extractClientId_find client_id_claims_def)
    next
      case 3
      then show ?thesis using v p e by (simp add: extractClientId_find client_id_claims_def)
    next
      case 4
      then show ?thesis using v p e by (simp add: extractClientId_find client_id_claims_def)
    qed
  qed
  have none: "extractClientId payload = ''unknown-client''"
    if "\<forall>k \<in> set client_id_claims. \<not> present (get_prop payload k)"
    using that by (simp add: extractClientId_find client_id_claims_def)
  show ?thesis using extractClientId_find [of payload] first none by blast
qed

theorem extractClientId_first_present_witness:
  "extractClientId [(''azp'', JNull), (''cid'', JStr ''app-7''), (''sub'', JStr ''user-1'')] = ''app-7''
   \<and> extractClientId [(''azp'', JNull), (''exp'', JNum 5)] = ''unknown-client''"
  using extractClientId_first_present
      [of "[(''azp'', JNull), (''cid'', JStr ''app-7''), (''sub'', JStr ''user-1'')]" "''cid''" "''app-7''"]
    extractClientId_first_present [of "[(''azp'', JNull), (''exp'', JNum 5)]" "''cid''" "''x''"]
  by (simp add: get_prop_def present_def client_id_claims_def)

subsection \<open>Scope extraction\<close>

lemma split_on_not_Nil: "split_on c s \<noteq> []"
  by (cases s) (simp_all split: list.splits)

text \<open>C10, as stated, fails in its first part: the JWT scope extractor does return an
  empty-string entry, for an array-valued scope claim that holds one.\<close>

theorem extractScopes_counterexample:
  "extractScopes [(''scope'', JArr [JStr ''''])] = ['''']
   \<and> [] \<in> set (extractScopes [(''scope'', JArr [JStr ''''])])"
  by (simp add: extractScopes_def get_prop_def nc_def strings_of_def List.map_filter_simps)

text \<open>C10, amended: for a string-valued scope claim the JWT scope extractor returns the
  non-empty pieces between spaces, so no empty-string entry, and the empty string gives
  the empty list; for an array-valued claim it returns the string elements as they are,
  empty ones included. The introspection verifier splits a string \<^verbatim>\<open>scope\<close> field
  without filtering: the empty string gives the one-element list of the empty string,
  and the scopes are the empty list exactly when the field is no string.\<close>

theorem scope_extraction:
  "(nc (get_prop payload ''scope'') (get_prop payload ''scp'') = JStr s \<longrightarrow>
       extractScopes payload = filter (\<lambda>w. w \<noteq> []) (split_on (CHR '' '') s)
       \<and> [] \<notin> set (extractScopes payload))
   \<and> (get_prop payload ''scope'' = JStr [] \<longrightarrow> extractScopes payload = [])
   \<and> (nc (get_prop payload ''scope'') (get_prop payload ''scp'') = JArr vs \<longrightarrow>
       extractScopes payload = strings_of vs)
   \<and> (introspection_result cfg cid tok outcome = Inr r \<longrightarrow>
       (\<exists>response data. outcome = Response response \<and> body_json response = Inr data
          \<and> scopes r = (case get_prop data ''scope'' of
                          JStr s \<Rightarrow> split_on (CHR '' '') s | _ \<Rightarrow> [])
          \<and> (get_prop data ''scope'' = JStr [] \<longrightarrow> scopes r = [[]])
          \<and> ((scopes r = []) = (\<forall>s. get_prop data ''scope'' \<noteq> JStr s))))"
proof -
  have a: "extractScopes payload = filter (\<lambda>w. w \<noteq> []) (split_on (CHR '' '') s)
       \<and> [] \<notin> set (extractScopes payload)"
    if "nc (get_prop payload ''scope'') (get_prop payload ''scp'') = JStr s"
    using that by (simp add: extractScopes_def)
  have b: "extractScopes payload = []" if "get_prop payload ''scope'' = JStr []"
    using that by (simp add: extractScopes_def nc_def)
  have c: "extractScopes payload = strings_of vs"
    if "nc (get_prop payload ''scope'') (get_prop payload ''scp'') = JArr vs"
    using that by (simp add: extractScopes_def)
  have d: "\<exists>response data. outcome = Response response \<and> body_json response = Inr data
          \<and> scopes r = (case get_prop data ''scope'' of
                          JStr s \<Rightarrow> split_on (CHR '' '') s | _ \<Rightarrow> [])
          \<and> (get_prop data ''scope'' = JStr [] \<longrightarrow> scopes r = [[]])
          \<and> ((scopes r = []) = (\<forall>s. get_prop data ''scope'' \<noteq> JStr s))"
    if "introspection_result cfg cid tok outcome = Inr r"
  proof -
    from that obtain response data where o: "outcome = Response response"
      and bd: "body_json response = Inr data"
      and sc: "scopes r = (case get_prop data ''scope'' of
                          JStr s \<Rightarrow> split_on (CHR '' '') s | _ \<Rightarrow> [])"
      by (auto simp: introspection_result_def split: fetch_outcome.splits if_splits sum.splits)
    have "(scopes r = []) = (\<forall>s. get_prop data ''scope'' \<noteq> JStr s)"
      using sc split_on_not_Nil by (cases "get_prop data ''scope''") auto
    moreover have "get_prop data ''scope'' = JStr [] \<longrightarrow> scopes r = [[]]"
      using sc by simp
    ultimately show ?thesis using o bd sc by blast
  qed
  show ?thesis using a b c d by blast
qed

theorem scope_extraction_witness:
  "extractScopes [(''scope'', JStr '''')] = []
   \<and> extractScopes [(''scp'', JStr ''read  write '')] = [''read'', ''write'']
   \<and> extractScopes [(''scope'', JArr [JStr ''read'', JNum 1, JStr ''''])] = [''read'', '''']
   \<and> map_sum id scopes (introspection_result mockConfig (Some ''mcp'') ''t''
        (Response \<lparr>status = 200, statusText = ''OK'',
           body_json = Inr [(''active'', JBool True), (''scope'', JStr '''')]\<rparr>)) = Inr ['''']
   \<and> map_sum id scopes (introspection_result mockConfig (Some ''mcp'') ''t''
        (Response \<lparr>status = 200, statusText = ''OK'',
           body_json = Inr [(''active'', JBool True), (''scope'', JNull)]\<rparr>)) = Inr []"
  using scope_extraction [of "[(''scope'', JStr '''')]" "''''"]
    scope_extraction [of "[(''scp'', JStr ''read  write '')]" "''read  write ''"]
    scope_extraction [of "[(''scope'', JArr [JStr ''read'', JNum 1, JStr ''''])]" "''''"
      "[JStr ''read'', JNum 1, JStr '''']"]
  by (simp add: get_prop_def nc_def strings_of_def List.map_filter_simps
      introspection_result_def ok_def mockConfig_def audienceMatches.simps)

subsection \<open>The endpoints the oauth verifier uses\<close>










subsection \<open>Parsing and serialising URLs\<close>

lemma cut_at_found: "c \<notin> set a \<Longrightarrow> cut_at c (a @ c # b) = (a, Some b)"
  by (induction a) (auto simp: cut_at_def)

lemma cut_at_missing: "c \<notin> set a \<Longrightarrow> cut_at c a = (a, None)"
  by (induction a) (auto simp: cut_at_def)

lemma takeWhile_stop: "c \<notin> set a \<Longrightarrow> takeWhile (\<lambda>x. x \<noteq> c) (a @ c # b) = a"
  by (induction a) auto

lemma dropWhile_stop: "c \<notin> set a \<Longrightarrow> dropWhile (\<lambda>x. x \<noteq> c) (a @ c # b) = c # b"
  by (induction a) auto

lemma startsWith_slash: "startsWith p ''/'' = (\<exists>r. p = CHR ''/'' # r)"
  by (cases p) auto

lemma parse_url_components:
  assumes sch: "sch = ''http'' \<or> sch = ''https''"
    and auth: "auth \<noteq> []" "CHR ''/'' \<notin> set auth" "CHR ''?'' \<notin> set auth" "CHR ''#'' \<notin> set auth"
    and path: "startsWith path ''/''" "CHR ''?'' \<notin> set path" "CHR ''#'' \<notin> set path"
    and q: "case qo of None \<Rightarrow> True | Some q \<Rightarrow> CHR ''#'' \<notin> set q"
  shows "parse_url (sch @ ''://'' @ auth @ path
            @ (case qo of None \<Rightarrow> [] | Some q \<Rightarrow> CHR ''?'' # q)
            @ (case fo of None \<Rightarrow> [] | Some f \<Rightarrow> CHR ''#'' # f))
         = Some \<lparr>scheme = sch, authority = auth, pathname = path, query = qo, fragment = fo\<rparr>"
proof -
  define base where "base = sch @ ''://'' @ auth @ path"
  define qp where "qp = (case qo of None \<Rightarrow> [] | Some q \<Rightarrow> CHR ''?'' # q)"
  define fp where "fp = (case fo of None \<Rightarrow> [] | Some f \<Rightarrow> CHR ''#'' # f)"
  obtain r where r: "path = CHR ''/'' # r"
    using path(1) by (auto simp: startsWith_slash)
  have base_hash: "CHR ''#'' \<notin> set base" and base_q: "CHR ''?'' \<notin> set base"
    using sch auth path by (auto simp: base_def)
  have qp_hash: "CHR ''#'' \<notin> set qp"
    using q by (cases qo) (simp_all add: qp_def)
  have c1: "cut_at (CHR ''#'') ((base @ qp) @ fp) = (base @ qp, fo)"
  proof (cases fo)
    case None
    then show ?thesis using base_hash qp_hash by (simp add: fp_def cut_at_missing)
  next
    case (Some f)
    then show ?thesis
      using base_hash qp_hash cut_at_found [of "CHR ''#''" "base @ qp" f] by (simp add: fp_def)
  qed
  have c2: "cut_at (CHR ''?'') (base @ qp) = (base, qo)"
  proof (cases qo)
    case None
    then show ?thesis using base_q by (simp add: qp_def cut_at_missing)
  next
    case (Some x)
    then show ?thesis using base_q cut_at_found [of "CHR ''?''" base x] by (simp add: qp_def)
  qed
  have colon: "CHR '':'' \<notin> set sch" using sch by auto
  have t1: "takeWhile (\<lambda>x. x \<noteq> CHR '':'') base = sch"
    using takeWhile_stop [OF colon, of "''//'' @ auth @ path"] by (simp add: base_def)
  have d1: "dropWhile (\<lambda>x. x \<noteq> CHR '':'') base = ''://'' @ auth @ path"
    using dropWhile_stop [OF colon, of "''//'' @ auth @ path"] by (simp add: base_def)
  have t2: "takeWhile (\<lambda>x. x \<noteq> CHR ''/'') (auth @ path) = auth"
    using takeWhile_stop [OF auth(2), of r] r by simp
  have d2: "dropWhile (\<lambda>x. x \<noteq> CHR ''/'') (auth @ path) = path"
    using dropWhile_stop [OF auth(2), of r] r by simp
  have "parse_url ((base @ qp) @ fp)
         = Some \<lparr>scheme = sch, authority = auth, pathname = path, query = qo, fragment = fo\<rparr>"
    unfolding parse_url_def c1 using c2 t1 d1 t2 d2 sch auth(1) r
    by (simp add: Let_def)
  then show ?thesis by (simp add: base_def qp_def fp_def)
qed

lemma parse_url_href: "wf_url u \<Longrightarrow> parse_url (href u) = Some u"
  using parse_url_components [of "scheme u" "authority u" "pathname u" "query u" "fragment u"]
  by (simp add: wf_url_def href_def)

lemma parse_url_wf:
  assumes "parse_url s = Some u"
  shows "wf_url u"
proof -
  define s1 where "s1 = takeWhile (\<lambda>x. x \<noteq> CHR ''#'') s"
  define s2 where "s2 = takeWhile (\<lambda>x. x \<noteq> CHR ''?'') s1"
  define rest where "rest = dropWhile (\<lambda>x. x \<noteq> CHR '':'') s2"
  define r where "r = drop 3 rest"
  define auth where "auth = takeWhile (\<lambda>x. x \<noteq> CHR ''/'') r"
  define path where "path = dropWhile (\<lambda>x. x \<noteq> CHR ''/'') r"
  define q where "q = (case dropWhile (\<lambda>x. x \<noteq> CHR ''?'') s1 of [] \<Rightarrow> None | _ # t \<Rightarrow> Some t)"
  have s1: "CHR ''#'' \<notin> set s1"
    unfolding s1_def by (auto dest: set_takeWhileD)
  have s2: "CHR ''?'' \<notin> set s2" "set s2 \<subseteq> set s1"
    unfolding s2_def by (auto dest: set_takeWhileD)
  have r: "set r \<subseteq> set s2"
    unfolding r_def rest_def by (auto dest: in_set_dropD set_dropWhileD)
  have auth: "CHR ''/'' \<notin> set auth" "set auth \<subseteq> set r"
    unfolding auth_def by (auto dest: set_takeWhileD)
  have path_set: "set path \<subseteq> set r"
    unfolding path_def by (auto dest: set_dropWhileD)
  have path_start: "startsWith path ''/''" if "path \<noteq> []"
  proof -
    from that obtain a t where c: "path = a # t" by (cases path) auto
    then have "a = CHR ''/''"
      by (simp add: path_def dropWhile_eq_Cons_conv)
    with c show ?thesis by simp
  qed
  note path = path_set path_start
  have q: "case q of None \<Rightarrow> True | Some t \<Rightarrow> CHR ''#'' \<notin> set t"
  proof (cases "dropWhile (\<lambda>x. x \<noteq> CHR ''?'') s1")
    case Nil
    show ?thesis unfolding q_def Nil by simp
  next
    case (Cons a t)
    have "set t \<subseteq> set s1"
      using set_dropWhileD [of _ "\<lambda>x. x \<noteq> CHR ''?''" s1] unfolding Cons by auto
    with s1 have "CHR ''#'' \<notin> set t" by auto
    then show ?thesis unfolding q_def Cons by simp
  qed
  from assms have u: "u = \<lparr>scheme = takeWhile (\<lambda>x. x \<noteq> CHR '':'') s2, authority = auth,
      pathname = (if path = [] then ''/'' else path), query = q,
      fragment = (case dropWhile (\<lambda>x. x \<noteq> CHR ''#'') s of [] \<Rightarrow> None | _ # t \<Rightarrow> Some t)\<rparr>"
    and ok: "takeWhile (\<lambda>x. x \<noteq> CHR '':'') s2 = ''http'' \<or> takeWhile (\<lambda>x. x \<noteq> CHR '':'') s2 = ''https''"
      "auth \<noteq> []"
    unfolding parse_url_def cut_at_def Let_def s1_def s2_def rest_def r_def auth_def path_def q_def
    by (auto split: if_splits)
  have root: "startsWith ''/'' ''/''" by simp
  show ?thesis
    unfolding wf_url_def u using ok s1 s2 r auth path q root
    by (auto simp del: startsWith.simps simp: subset_iff)
qed

lemma href_append_to_href: "href (append_to_href u sfx) = href u @ sfx"
  by (simp add: append_to_href_def href_def split: option.splits)

lemma startsWith_append: "startsWith p t \<Longrightarrow> startsWith (p @ s) t"
  by (induction p t rule: startsWith.induct) simp_all

lemma wf_append_to_href:
  assumes "wf_url u" "CHR ''?'' \<notin> set sfx" "CHR ''#'' \<notin> set sfx"
  shows "wf_url (append_to_href u sfx)"
  using assms
  by (auto simp: wf_url_def append_to_href_def startsWith_append split: option.splits)

lemma parse_url_href_append:
  assumes "wf_url u" "CHR ''?'' \<notin> set sfx" "CHR ''#'' \<notin> set sfx"
  shows "parse_url (href u @ sfx) = Some (append_to_href u sfx)"
  using parse_url_href [OF wf_append_to_href [OF assms]]
  by (simp add: href_append_to_href)

lemma wf_ensureTrailingSlash: "wf_url u \<Longrightarrow> wf_url (ensureTrailingSlash u)"
  by (auto simp: wf_url_def ensureTrailingSlash_def set_pathname_def Let_def startsWith_append)

subsection \<open>Candidate discovery URLs\<close>

lemma root_candidate:
  "new_URL_base ''/.well-known/openid-configuration'' issuer =
     Inr (issuer\<lparr>pathname := ''/.well-known/openid-configuration'', query := None, fragment := None\<rparr>)"
  "new_URL_base ''/.well-known/oauth-authorization-server'' issuer =
     Inr (issuer\<lparr>pathname := ''/.well-known/oauth-authorization-server'', query := None, fragment := None\<rparr>)"
  by (simp_all add: new_URL_base_def resolve_url_def parse_url_def cut_at_def)

lemma scoped_candidate:
  assumes "wf_url issuer"
  shows "new_URL (href (ensureTrailingSlash issuer) @ ''.well-known/openid-configuration'') =
      Inr (append_to_href (ensureTrailingSlash issuer) ''.well-known/openid-configuration'')"
    "new_URL (href (ensureTrailingSlash issuer) @ ''.well-known/oauth-authorization-server'') =
      Inr (append_to_href (ensureTrailingSlash issuer) ''.well-known/oauth-authorization-server'')"
  using parse_url_href_append [OF wf_ensureTrailingSlash [OF assms]]
  by (simp_all add: new_URL_def)

lemma buildWellKnownCandidates_wf:
  assumes "wf_url issuer"
  shows "buildWellKnownCandidates issuer =
     Inr [append_to_href (ensureTrailingSlash issuer) ''.well-known/openid-configuration'',
          append_to_href (ensureTrailingSlash issuer) ''.well-known/oauth-authorization-server'',
          issuer\<lparr>pathname := ''/.well-known/openid-configuration'', query := None, fragment := None\<rparr>,
          issuer\<lparr>pathname := ''/.well-known/oauth-authorization-server'', query := None,
                 fragment := None\<rparr>]"
  unfolding buildWellKnownCandidates_def Let_def well_known_paths_def
  by (simp add: scoped_candidate [OF assms] root_candidate)

lemma endsWith_append: "p \<noteq> [] \<Longrightarrow> endsWith (a @ p) ''/'' = endsWith p ''/''"
  by (cases "rev p") (simp_all add: endsWith_def)

lemma ensureTrailingSlash_plain:
  assumes "wf_url issuer" "query issuer = None" "fragment issuer = None"
  shows "ensureTrailingSlash issuer =
     issuer\<lparr>pathname := (if endsWith (pathname issuer) ''/'' then pathname issuer
                          else pathname issuer @ ''/'')\<rparr>"
proof -
  have ne: "pathname issuer \<noteq> []" using assms(1) by (auto simp: wf_url_def)
  have h: "href issuer = (scheme issuer @ ''://'' @ authority issuer) @ pathname issuer"
    using assms by (simp add: href_def)
  have e: "endsWith (href issuer) ''/'' = endsWith (pathname issuer) ''/''"
    unfolding h by (rule endsWith_append [OF ne])
  have s: "startsWith (pathname issuer @ ''/'') ''/''"
    using assms(1) by (simp add: wf_url_def startsWith_append)
  show ?thesis
    using e s by (simp add: ensureTrailingSlash_def set_pathname_def Let_def)
qed

text \<open>C7, as stated, fails: the two suffixes are appended to the issuer with its
  trailing slash only. For the issuer \<^verbatim>\<open>http://localhost:8080/realms/test\<close> the
  candidates are the four below, and neither the issuer's own \<^verbatim>\<open>href\<close> followed by a
  suffix nor a suffix resolved against the issuer without the slash is among them.\<close>

theorem buildWellKnownCandidates_counterexample:
  "parse_url ''http://localhost:8080/realms/test'' = Some mockIssuer
   \<and> map_sum id (map href) (buildWellKnownCandidates mockIssuer) =
       Inr [''http://localhost:8080/realms/test/.well-known/openid-configuration'',
            ''http://localhost:8080/realms/test/.well-known/oauth-authorization-server'',
            ''http://localhost:8080/.well-known/openid-configuration'',
            ''http://localhost:8080/.well-known/oauth-authorization-server'']
   \<and> href mockIssuer @ ''.well-known/openid-configuration''
        = ''http://localhost:8080/realms/test.well-known/openid-configuration''
   \<and> map_option href (resolve_url ''.well-known/openid-configuration'' mockIssuer)
        = Some ''http://localhost:8080/realms/.well-known/openid-configuration''
   \<and> ''http://localhost:8080/realms/test.well-known/openid-configuration''
        \<notin> set [''http://localhost:8080/realms/test/.well-known/openid-configuration'',
            ''http://localhost:8080/realms/test/.well-known/oauth-authorization-server'',
            ''http://localhost:8080/.well-known/openid-configuration'',
            ''http://localhost:8080/.well-known/oauth-authorization-server'']
   \<and> ''http://localhost:8080/realms/.well-known/openid-configuration''
        \<notin> set [''http://localhost:8080/realms/test/.well-known/openid-configuration'',
            ''http://localhost:8080/realms/test/.well-known/oauth-authorization-server'',
            ''http://localhost:8080/.well-known/openid-configuration'',
            ''http://localhost:8080/.well-known/oauth-authorization-server'']"
  by code_simp

text \<open>C7, amended: for every issuer URL the constructor gives, the candidates are
  exactly four, in this order: the two suffixes \<^verbatim>\<open>.well-known/openid-configuration\<close>
  and \<^verbatim>\<open>.well-known/oauth-authorization-server\<close> appended to the \<^verbatim>\<open>href\<close> of the
  issuer with its trailing slash ensured, and the same two suffixes as paths at the
  root of the issuer's origin. For an issuer without query and fragment, ensuring the
  trailing slash appends a slash to the path unless it ends with one.\<close>

theorem buildWellKnownCandidates_four:
  "parse_url s = Some issuer \<longrightarrow>
     buildWellKnownCandidates issuer =
       Inr [append_to_href (ensureTrailingSlash issuer) ''.well-known/openid-configuration'',
            append_to_href (ensureTrailingSlash issuer) ''.well-known/oauth-authorization-server'',
            issuer\<lparr>pathname := ''/.well-known/openid-configuration'', query := None, fragment := None\<rparr>,
            issuer\<lparr>pathname := ''/.well-known/oauth-authorization-server'', query := None,
                   fragment := None\<rparr>]
     \<and> (\<forall>cs. buildWellKnownCandidates issuer = Inr cs \<longrightarrow> length cs = 4)
     \<and> href (append_to_href (ensureTrailingSlash issuer) ''.well-known/openid-configuration'')
          = href (ensureTrailingSlash issuer) @ ''.well-known/openid-configuration''
     \<and> href (append_to_href (ensureTrailingSlash issuer) ''.well-known/oauth-authorization-server'')
          = href (ensureTrailingSlash issuer) @ ''.well-known/oauth-authorization-server''
     \<and> (query issuer = None \<and> fragment issuer = None \<longrightarrow>
          ensureTrailingSlash issuer =
            issuer\<lparr>pathname := (if endsWith (pathname issuer) ''/'' then pathname issuer
                                 else pathname issuer @ ''/'')\<rparr>)"
proof
  assume "parse_url s = Some issuer"
  then have wf: "wf_url issuer" by (rule parse_url_wf)
  show "buildWellKnownCandidates issuer =
       Inr [append_to_href (ensureTrailingSlash issuer) ''.well-known/openid-configuration'',
            append_to_href (ensureTrailingSlash issuer) ''.well-known/oauth-authorization-server'',
            issuer\<lparr>pathname := ''/.well-known/openid-configuration'', query := None, fragment := None\<rparr>,
            issuer\<lparr>pathname := ''/.well-known/oauth-authorization-server'', query := None,
                   fragment := None\<rparr>]
     \<and> (\<forall>cs. buildWellKnownCandidates issuer = Inr cs \<longrightarrow> length cs = 4)
     \<and> href (append_to_href (ensureTrailingSlash issuer) ''.well-known/openid-configuration'')
          = href (ensureTrailingSlash issuer) @ ''.well-known/openid-configuration''
     \<and> href (append_to_href (ensureTrailingSlash issuer) ''.well-known/oauth-authorization-server'')
          = href (ensureTrailingSlash issuer) @ ''.well-known/oauth-authorization-server''
     \<and> (query issuer = None \<and> fragment issuer = None \<longrightarrow>
          ensureTrailingSlash issuer =
            issuer\<lparr>pathname := (if endsWith (pathname issuer) ''/'' then pathname issuer
                                 else pathname issuer @ ''/'')\<rparr>)"
    using buildWellKnownCandidates_wf [OF wf] ensureTrailingSlash_plain [OF wf]
    by (simp add: href_append_to_href)
qed

theorem buildWellKnownCandidates_four_witness:
  "parse_url ''http://localhost:8080/realms/test'' = Some mockIssuer
   \<and> buildWellKnownCandidates mockIssuer =
       Inr [mockIssuer\<lparr>pathname := ''/realms/test/.well-known/openid-configuration''\<rparr>,
            mockIssuer\<lparr>pathname := ''/realms/test/.well-known/oauth-authorization-server''\<rparr>,
            mockIssuer\<lparr>pathname := ''/.well-known/openid-configuration''\<rparr>,
            mockIssuer\<lparr>pathname := ''/.well-known/oauth-authorization-server''\<rparr>]"
proof -
  have p: "parse_url ''http://localhost:8080/realms/test'' = Some mockIssuer"
    by code_simp
  show ?thesis
    using p buildWellKnownCandidates_four [of "''http://localhost:8080/realms/test''" mockIssuer]
    by (simp add: mockIssuer_def append_to_href_def endsWith_def)
qed

subsection \<open>Issuer rewriting\<close>






lemma remap_other:
  "(\<forall>s. v = JStr s \<longrightarrow> s = []) \<Longrightarrow> remap issuerUrl v = Inr JUndefined"
  by (cases v) (simp_all add: remap_def)


















text \<open>An endpoint whose path starts with two slashes is not kept under the public
  issuer's authority: the path is resolved as a reference to another host.\<close>

lemma remap_scheme_relative:
  "remap mockPublicIssuer (JStr ''http://localhost:8080//other.example/token'')
     = Inr (JStr ''https://other.example/token'')"
  by code_simp




subsection \<open>Metadata discovery\<close>

lemma try_candidate_unusable:
  "unusable outcome \<Longrightarrow>
     try_candidate outcome c = Inl (href c @ '' ('' @ failure_reason outcome @ '')'')"
  by (auto simp: unusable_def usable_json_def try_candidate_def failure_reason_def
      split: fetch_outcome.splits sum.splits if_splits)

lemma try_candidate_usable:
  "usable_json outcome = Some json \<Longrightarrow> try_candidate outcome c = Inr json"
  by (auto simp: usable_json_def try_candidate_def split: fetch_outcome.splits sum.splits if_splits)

lemma try_candidates_unusable:
  "round_unusable fetch (calls st) cs \<Longrightarrow>
     try_candidates fetch cs st =
       (None, st\<lparr>calls := calls st + length cs,
                 attempts := attempts st @ round_attempts fetch (calls st) cs,
                 events := events st @ round_events cs\<rparr>)"
proof (induction cs arbitrary: st)
  case Nil
  show ?case by (simp add: round_events_def)
next
  case (Cons c cs)
  let ?st = "st\<lparr>calls := calls st + 1, events := events st @ [Fetched (href c)],
                 attempts := attempts st @ [href c @ '' ('' @ failure_reason (fetch (calls st) (href c)) @ '')'']\<rparr>"
  from Cons.prems have u: "unusable (fetch (calls st) (href c))"
    and r: "round_unusable fetch (calls ?st) cs" by simp_all
  show ?case
    using Cons.IH [OF r] try_candidate_unusable [OF u, of c]
    by (simp add: Let_def round_events_def)
qed

lemma try_candidates_usable:
  "m < length cs \<Longrightarrow> round_unusable fetch (calls st) (take m cs) \<Longrightarrow>
   usable_json (fetch (calls st + m) (href (cs ! m))) = Some json \<Longrightarrow>
     try_candidates fetch cs st =
       (Some json, st\<lparr>calls := calls st + m + 1,
                      attempts := attempts st @ round_attempts fetch (calls st) (take m cs),
                      events := events st @ round_events (take (Suc m) cs)\<rparr>)"
proof (induction cs arbitrary: st m)
  case Nil
  then show ?case by simp
next
  case (Cons c cs)
  show ?case
  proof (cases m)
    case 0
    with Cons.prems show ?thesis
      using try_candidate_usable [of "fetch (calls st) (href c)" json c]
      by (simp add: Let_def round_events_def)
  next
    case (Suc k)
    let ?st = "st\<lparr>calls := calls st + 1, events := events st @ [Fetched (href c)],
                   attempts := attempts st @ [href c @ '' ('' @ failure_reason (fetch (calls st) (href c)) @ '')'']\<rparr>"
    from Cons.prems Suc have u: "unusable (fetch (calls st) (href c))"
      and k: "k < length cs"
      and r: "round_unusable fetch (calls ?st) (take k cs)"
      and j: "usable_json (fetch (calls ?st + k) (href (cs ! k))) = Some json"
      by simp_all
    show ?thesis
      using Cons.IH [OF k r j] try_candidate_unusable [OF u, of c] Suc
      by (simp add: Let_def round_events_def)
  qed
qed

lemma discovery_rounds_skip:
  assumes cs: "buildWellKnownCandidates issuer = Inr cs"
  shows "rounds_unusable fetch (calls st) cs j \<Longrightarrow>
     a + int j \<le> MCP_OAUTH_DISCOVERY_RETRIES cfg \<Longrightarrow>
     discovery_rounds cfg fetch issuer a st =
       discovery_rounds cfg fetch issuer (a + int j)
         (st\<lparr>calls := calls st + j * length cs,
             attempts := attempts st @ failed_rounds_attempts fetch (calls st) cs j,
             events := events st
               @ sleeping_rounds_events j (MCP_OAUTH_DISCOVERY_RETRY_DELAY_MS cfg) cs\<rparr>)"
proof (induction j arbitrary: a st)
  case 0
  show ?case by simp
next
  case (Suc j)
  let ?d = "MCP_OAUTH_DISCOVERY_RETRY_DELAY_MS cfg"
  let ?st1 = "st\<lparr>calls := calls st + length cs,
                  attempts := attempts st @ round_attempts fetch (calls st) cs,
                  events := events st @ round_events cs\<rparr>"
  let ?st2 = "?st1\<lparr>events := events ?st1 @ [Slept ?d]\<rparr>"
  from Suc.prems have r: "round_unusable fetch (calls st) cs"
    and rs: "rounds_unusable fetch (calls ?st2) cs j"
    and a: "a < MCP_OAUTH_DISCOVERY_RETRIES cfg"
    and le: "(a + 1) + int j \<le> MCP_OAUTH_DISCOVERY_RETRIES cfg"
    by simp_all
  have step: "discovery_rounds cfg fetch issuer a st = discovery_rounds cfg fetch issuer (a + 1) ?st2"
    using a cs try_candidates_unusable [OF r]
    by (subst discovery_rounds.simps) simp
  show ?case
    unfolding step Suc.IH [OF rs le]
    by (simp add: ac_simps)
qed

lemma discovery_rounds_exhausted:
  "MCP_OAUTH_DISCOVERY_RETRIES cfg < a \<Longrightarrow>
     discovery_rounds cfg fetch issuer a st =
       (Inl (Error (''Unable to load OAuth metadata from issuer '' @ href issuer
                      @ ''. Tried: '' @ join ''; '' (attempts st))), st)"
  by (subst discovery_rounds.simps) simp

lemma discovery_rounds_last_unusable:
  assumes cs: "buildWellKnownCandidates issuer = Inr cs"
    and r: "round_unusable fetch (calls st) cs"
  shows "discovery_rounds cfg fetch issuer (MCP_OAUTH_DISCOVERY_RETRIES cfg) st =
     discovery_rounds cfg fetch issuer (MCP_OAUTH_DISCOVERY_RETRIES cfg + 1)
       (st\<lparr>calls := calls st + length cs,
           attempts := attempts st @ round_attempts fetch (calls st) cs,
           events := events st @ round_events cs\<rparr>)"
  using cs try_candidates_unusable [OF r]
  by (subst discovery_rounds.simps) simp

lemma discovery_rounds_usable:
  assumes cs: "buildWellKnownCandidates issuer = Inr cs"
    and a: "a \<le> MCP_OAUTH_DISCOVERY_RETRIES cfg"
    and m: "m < length cs"
    and r: "round_unusable fetch (calls st) (take m cs)"
    and j: "usable_json (fetch (calls st + m) (href (cs ! m))) = Some json"
  shows "discovery_rounds cfg fetch issuer a st =
     (Inr json, st\<lparr>calls := calls st + m + 1,
                    attempts := attempts st @ round_attempts fetch (calls st) (take m cs),
                    events := events st @ round_events (take (Suc m) cs)\<rparr>)"
  using cs a try_candidates_usable [OF m r j]
  by (subst discovery_rounds.simps) simp

lemma rounds_unusable_last:
  "rounds_unusable fetch i cs (Suc n) =
     (rounds_unusable fetch i cs n \<and> round_unusable fetch (i + n * length cs) cs)"
proof (induction n arbitrary: i)
  case 0
  show ?case by simp
next
  case (Suc n)
  have "rounds_unusable fetch i cs (Suc (Suc n)) =
      (round_unusable fetch i cs \<and> rounds_unusable fetch (i + length cs) cs (Suc n))"
    by simp
  also have "\<dots> = (round_unusable fetch i cs \<and> rounds_unusable fetch (i + length cs) cs n
      \<and> round_unusable fetch (i + length cs + n * length cs) cs)"
    unfolding Suc.IH ..
  also have "\<dots> = (rounds_unusable fetch i cs (Suc n)
      \<and> round_unusable fetch (i + Suc n * length cs) cs)"
    by (simp add: add.assoc)
  finally show ?case .
qed

lemma failed_rounds_attempts_last:
  "failed_rounds_attempts fetch i cs (Suc n) =
     failed_rounds_attempts fetch i cs n @ round_attempts fetch (i + n * length cs) cs"
proof (induction n arbitrary: i)
  case 0
  show ?case by simp
next
  case (Suc n)
  have "failed_rounds_attempts fetch i cs (Suc (Suc n)) =
      round_attempts fetch i cs @ failed_rounds_attempts fetch (i + length cs) cs (Suc n)"
    by simp
  also have "\<dots> = round_attempts fetch i cs @ failed_rounds_attempts fetch (i + length cs) cs n
      @ round_attempts fetch (i + length cs + n * length cs) cs"
    unfolding Suc.IH ..
  also have "\<dots> = failed_rounds_attempts fetch i cs (Suc n)
      @ round_attempts fetch (i + Suc n * length cs) cs"
    by (simp add: add.assoc)
  finally show ?case .
qed

lemma round_unusable_all: "(\<And>i u. unusable (fetch i u)) \<Longrightarrow> round_unusable fetch i cs"
  by (induction cs arbitrary: i) simp_all

lemma rounds_unusable_all: "(\<And>i u. unusable (fetch i u)) \<Longrightarrow> rounds_unusable fetch i cs n"
  by (induction n arbitrary: i) (simp_all add: round_unusable_all)

lemma spec_failure_unusable: "spec_failure outcome \<Longrightarrow> unusable outcome"
  by (auto simp: spec_failure_def unusable_def usable_json_def split: fetch_outcome.splits)

lemma discover_all_unusable:
  assumes cs: "buildWellKnownCandidates issuer = Inr cs"
    and n: "1 \<le> MCP_OAUTH_DISCOVERY_RETRIES cfg"
    and u: "rounds_unusable fetch 0 cs (nat (MCP_OAUTH_DISCOVERY_RETRIES cfg))"
  shows "discoverOAuthMetadata cfg fetch issuer =
     (Inl (Error (''Unable to load OAuth metadata from issuer '' @ href issuer @ ''. Tried: ''
          @ join ''; '' (failed_rounds_attempts fetch 0 cs (nat (MCP_OAUTH_DISCOVERY_RETRIES cfg))))),
      \<lparr>calls = nat (MCP_OAUTH_DISCOVERY_RETRIES cfg) * length cs,
       attempts = failed_rounds_attempts fetch 0 cs (nat (MCP_OAUTH_DISCOVERY_RETRIES cfg)),
       events = sleeping_rounds_events (nat (MCP_OAUTH_DISCOVERY_RETRIES cfg) - 1)
                  (MCP_OAUTH_DISCOVERY_RETRY_DELAY_MS cfg) cs @ round_events cs\<rparr>)"
proof -
  let ?N = "MCP_OAUTH_DISCOVERY_RETRIES cfg"
  let ?d = "MCP_OAUTH_DISCOVERY_RETRY_DELAY_MS cfg"
  obtain n where N: "nat ?N = Suc n"
    using n by (cases "nat ?N") auto
  have Ni: "?N = 1 + int n"
    using n N by linarith
  from u have un: "rounds_unusable fetch (calls initial_state) cs n"
    and ul: "round_unusable fetch (n * length cs) cs"
    unfolding N rounds_unusable_last by (simp_all add: initial_state_def)
  let ?st1 = "initial_state\<lparr>calls := calls initial_state + n * length cs,
        attempts := attempts initial_state @ failed_rounds_attempts fetch (calls initial_state) cs n,
        events := events initial_state @ sleeping_rounds_events n ?d cs\<rparr>"
  have s1: "discovery_rounds cfg fetch issuer 1 initial_state = discovery_rounds cfg fetch issuer ?N ?st1"
    using discovery_rounds_skip [OF cs un, of 1 cfg] Ni by simp
  have ul': "round_unusable fetch (calls ?st1) cs"
    using ul by (simp add: initial_state_def)
  show ?thesis
    unfolding discoverOAuthMetadata_def s1 discovery_rounds_last_unusable [OF cs ul']
    by (simp add: discovery_rounds_exhausted N failed_rounds_attempts_last initial_state_def
        del: failed_rounds_attempts.simps)
qed

lemma discover_first_usable:
  assumes cs: "buildWellKnownCandidates issuer = Inr cs"
    and j: "int j < MCP_OAUTH_DISCOVERY_RETRIES cfg"
    and m: "m < length cs"
    and u: "rounds_unusable fetch 0 cs j"
    and r: "round_unusable fetch (j * length cs) (take m cs)"
    and s: "usable_json (fetch (j * length cs + m) (href (cs ! m))) = Some json"
  shows "discoverOAuthMetadata cfg fetch issuer =
     (Inr json,
      \<lparr>calls = j * length cs + m + 1,
       attempts = failed_rounds_attempts fetch 0 cs j @ round_attempts fetch (j * length cs) (take m cs),
       events = sleeping_rounds_events j (MCP_OAUTH_DISCOVERY_RETRY_DELAY_MS cfg) cs
                  @ round_events (take (Suc m) cs)\<rparr>)"
proof -
  let ?d = "MCP_OAUTH_DISCOVERY_RETRY_DELAY_MS cfg"
  let ?st1 = "initial_state\<lparr>calls := calls initial_state + j * length cs,
        attempts := attempts initial_state @ failed_rounds_attempts fetch (calls initial_state) cs j,
        events := events initial_state @ sleeping_rounds_events j ?d cs\<rparr>"
  have u0: "rounds_unusable fetch (calls initial_state) cs j"
    using u by (simp add: initial_state_def)
  have s1: "discovery_rounds cfg fetch issuer 1 initial_state
      = discovery_rounds cfg fetch issuer (1 + int j) ?st1"
    using discovery_rounds_skip [OF cs u0, of 1 cfg] j by simp
  have a: "1 + int j \<le> MCP_OAUTH_DISCOVERY_RETRIES cfg" using j by simp
  have r': "round_unusable fetch (calls ?st1) (take m cs)"
    using r by (simp add: initial_state_def)
  have s': "usable_json (fetch (calls ?st1 + m) (href (cs ! m))) = Some json"
    using s by (simp add: initial_state_def)
  show ?thesis
    unfolding discoverOAuthMetadata_def s1 discovery_rounds_usable [OF cs a m r' s']
    by (simp add: initial_state_def)
qed

lemma length_round_attempts: "length (round_attempts fetch i cs) = length cs"
  by (induction cs arbitrary: i) simp_all

lemma length_failed_rounds_attempts: "length (failed_rounds_attempts fetch i cs n) = n * length cs"
  by (induction n arbitrary: i) (simp_all add: length_round_attempts)

lemma usable_json_Response:
  "(usable_json (Response response) = Some json) = (ok response \<and> body_json response = Inr json)"
  by (auto simp: usable_json_def split: sum.splits)

text \<open>C2, as stated, fails in its second part: a candidate that answers with a 2xx
  status does not end discovery when its body is not JSON. Against a server that
  answers every request with status 200 and a page that is not JSON, with one round
  configured, no outcome is a failure in the specification's sense, yet all four
  candidates are requested, each is recorded with the text of the parse error, and
  discovery throws.\<close>

theorem discoverOAuthMetadata_counterexample:
  "ok \<lparr>status = 200, statusText = ''OK'', body_json = Inl ''SyntaxError: Unexpected token <''\<rparr>
   \<and> \<not> spec_failure (htmlFetch 0 ''http://localhost:8080/realms/test/.well-known/openid-configuration'')
   \<and> MCP_OAUTH_DISCOVERY_RETRIES mockConfig = 1
   \<and> fst (discoverOAuthMetadata mockConfig htmlFetch mockIssuer) =
       Inl (Error (''Unable to load OAuth metadata from issuer http://localhost:8080/realms/test. Tried: ''
        @ ''http://localhost:8080/realms/test/.well-known/openid-configuration (SyntaxError: Unexpected token <); ''
        @ ''http://localhost:8080/realms/test/.well-known/oauth-authorization-server (SyntaxError: Unexpected token <); ''
        @ ''http://localhost:8080/.well-known/openid-configuration (SyntaxError: Unexpected token <); ''
        @ ''http://localhost:8080/.well-known/oauth-authorization-server (SyntaxError: Unexpected token <)''))
   \<and> events (snd (discoverOAuthMetadata mockConfig htmlFetch mockIssuer)) =
       [Fetched ''http://localhost:8080/realms/test/.well-known/openid-configuration'',
        Fetched ''http://localhost:8080/realms/test/.well-known/oauth-authorization-server'',
        Fetched ''http://localhost:8080/.well-known/openid-configuration'',
        Fetched ''http://localhost:8080/.well-known/oauth-authorization-server'']
   \<and> attempts (snd (discoverOAuthMetadata mockConfig htmlFetch mockIssuer)) =
       [''http://localhost:8080/realms/test/.well-known/openid-configuration (SyntaxError: Unexpected token <)'',
        ''http://localhost:8080/realms/test/.well-known/oauth-authorization-server (SyntaxError: Unexpected token <)'',
        ''http://localhost:8080/.well-known/openid-configuration (SyntaxError: Unexpected token <)'',
        ''http://localhost:8080/.well-known/oauth-authorization-server (SyntaxError: Unexpected token <)'']"
proof -
  have "discoverOAuthMetadata mockConfig htmlFetch mockIssuer =
     (Inl (Error (''Unable to load OAuth metadata from issuer http://localhost:8080/realms/test. Tried: ''
        @ ''http://localhost:8080/realms/test/.well-known/openid-configuration (SyntaxError: Unexpected token <); ''
        @ ''http://localhost:8080/realms/test/.well-known/oauth-authorization-server (SyntaxError: Unexpected token <); ''
        @ ''http://localhost:8080/.well-known/openid-configuration (SyntaxError: Unexpected token <); ''
        @ ''http://localhost:8080/.well-known/oauth-authorization-server (SyntaxError: Unexpected token <)'')),
      \<lparr>calls = 4,
       attempts =
         [''http://localhost:8080/realms/test/.well-known/openid-configuration (SyntaxError: Unexpected token <)'',
          ''http://localhost:8080/realms/test/.well-known/oauth-authorization-server (SyntaxError: Unexpected token <)'',
          ''http://localhost:8080/.well-known/openid-configuration (SyntaxError: Unexpected token <)'',
          ''http://localhost:8080/.well-known/oauth-authorization-server (SyntaxError: Unexpected token <)''],
       events =
         [Fetched ''http://localhost:8080/realms/test/.well-known/openid-configuration'',
          Fetched ''http://localhost:8080/realms/test/.well-known/oauth-authorization-server'',
          Fetched ''http://localhost:8080/.well-known/openid-configuration'',
          Fetched ''http://localhost:8080/.well-known/oauth-authorization-server'']\<rparr>)"
    by code_simp
  moreover have "ok \<lparr>status = 200, statusText = ''OK'',
      body_json = Inl ''SyntaxError: Unexpected token <''\<rparr>"
    by (simp add: ok_def)
  moreover have "\<not> spec_failure (htmlFetch 0
      ''http://localhost:8080/realms/test/.well-known/openid-configuration'')"
    by (simp add: spec_failure_def htmlFetch_def ok_def)
  moreover have "MCP_OAUTH_DISCOVERY_RETRIES mockConfig = 1"
    by (simp add: mockConfig_def)
  ultimately show ?thesis by simp
qed

text \<open>C2, amended: a candidate is unusable when the request fails, the status is not in
  the 2xx range, or the body of a 2xx response does not parse as JSON. For a retry
  count of at least 1, when every candidate is unusable in every round, discovery
  requests every candidate in order in each of exactly that many rounds, sleeps for the
  configured delay between two rounds and not after the last, and throws one error whose
  message lists the recorded entries, one per request, each the URL with its reason.
  When the first usable candidate is candidate \<open>m\<close> of round \<open>j + 1\<close>, discovery
  returns its parsed body, having made the requests of \<open>j\<close> full rounds, each
  followed by a sleep, and of the candidates up to \<open>m\<close> in that round, and none after
  it. A failure in the specification's sense is an unusable outcome.\<close>

theorem discoverOAuthMetadata_rounds:
  "(buildWellKnownCandidates issuer = Inr cs \<and> 1 \<le> MCP_OAUTH_DISCOVERY_RETRIES cfg
      \<and> rounds_unusable fetch 0 cs (nat (MCP_OAUTH_DISCOVERY_RETRIES cfg)) \<longrightarrow>
      discoverOAuthMetadata cfg fetch issuer =
        (Inl (Error (''Unable to load OAuth metadata from issuer '' @ href issuer @ ''. Tried: ''
           @ join ''; '' (failed_rounds_attempts fetch 0 cs (nat (MCP_OAUTH_DISCOVERY_RETRIES cfg))))),
         \<lparr>calls = nat (MCP_OAUTH_DISCOVERY_RETRIES cfg) * length cs,
          attempts = failed_rounds_attempts fetch 0 cs (nat (MCP_OAUTH_DISCOVERY_RETRIES cfg)),
          events = sleeping_rounds_events (nat (MCP_OAUTH_DISCOVERY_RETRIES cfg) - 1)
                     (MCP_OAUTH_DISCOVERY_RETRY_DELAY_MS cfg) cs @ round_events cs\<rparr>))
   \<and> (buildWellKnownCandidates issuer = Inr cs \<and> int j < MCP_OAUTH_DISCOVERY_RETRIES cfg
      \<and> m < length cs \<and> rounds_unusable fetch 0 cs j
      \<and> round_unusable fetch (j * length cs) (take m cs)
      \<and> usable_json (fetch (j * length cs + m) (href (cs ! m))) = Some json \<longrightarrow>
      discoverOAuthMetadata cfg fetch issuer =
        (Inr json,
         \<lparr>calls = j * length cs + m + 1,
          attempts = failed_rounds_attempts fetch 0 cs j
                       @ round_attempts fetch (j * length cs) (take m cs),
          events = sleeping_rounds_events j (MCP_OAUTH_DISCOVERY_RETRY_DELAY_MS cfg) cs
                     @ round_events (take (Suc m) cs)\<rparr>))
   \<and> ((\<forall>i u. unusable (fetch i u)) \<longrightarrow> rounds_unusable fetch k cs n)
   \<and> (spec_failure outcome \<longrightarrow> unusable outcome)
   \<and> (usable_json (Response response) = Some json) = (ok response \<and> body_json response = Inr json)
   \<and> length (failed_rounds_attempts fetch k cs n) = n * length cs"
  using discover_all_unusable [of issuer cs cfg fetch]
    discover_first_usable [of issuer cs j cfg m fetch json]
    rounds_unusable_all [of fetch k cs n] spec_failure_unusable [of outcome]
    usable_json_Response [of response json] length_failed_rounds_attempts [of fetch k cs n]
  by blast

theorem discoverOAuthMetadata_rounds_witness:
  "events (snd (discoverOAuthMetadata (mockConfig\<lparr>MCP_OAUTH_DISCOVERY_RETRIES := 2\<rparr>)
                  notFoundFetch mockIssuer)) =
       [Fetched ''http://localhost:8080/realms/test/.well-known/openid-configuration'',
        Fetched ''http://localhost:8080/realms/test/.well-known/oauth-authorization-server'',
        Fetched ''http://localhost:8080/.well-known/openid-configuration'',
        Fetched ''http://localhost:8080/.well-known/oauth-authorization-server'',
        Slept 100,
        Fetched ''http://localhost:8080/realms/test/.well-known/openid-configuration'',
        Fetched ''http://localhost:8080/realms/test/.well-known/oauth-authorization-server'',
        Fetched ''http://localhost:8080/.well-known/openid-configuration'',
        Fetched ''http://localhost:8080/.well-known/oauth-authorization-server'']
   \<and> length (attempts (snd (discoverOAuthMetadata (mockConfig\<lparr>MCP_OAUTH_DISCOVERY_RETRIES := 2\<rparr>)
                  notFoundFetch mockIssuer))) = 8
   \<and> fst (discoverOAuthMetadata (mockConfig\<lparr>MCP_OAUTH_DISCOVERY_RETRIES := 2\<rparr>)
                  lateFetch mockIssuer) = Inr mockOAuthMetadata
   \<and> events (snd (discoverOAuthMetadata (mockConfig\<lparr>MCP_OAUTH_DISCOVERY_RETRIES := 2\<rparr>)
                  lateFetch mockIssuer)) =
       [Fetched ''http://localhost:8080/realms/test/.well-known/openid-configuration'',
        Fetched ''http://localhost:8080/realms/test/.well-known/oauth-authorization-server'',
        Fetched ''http://localhost:8080/.well-known/openid-configuration'',
        Fetched ''http://localhost:8080/.well-known/oauth-authorization-server'',
        Slept 100,
        Fetched ''http://localhost:8080/realms/test/.well-known/openid-configuration'',
        Fetched ''http://localhost:8080/realms/test/.well-known/oauth-authorization-server'']"
proof -
  let ?cfg = "mockConfig\<lparr>MCP_OAUTH_DISCOVERY_RETRIES := 2\<rparr>"
  let ?cs = "[mockIssuer\<lparr>pathname := ''/realms/test/.well-known/openid-configuration''\<rparr>,
            mockIssuer\<lparr>pathname := ''/realms/test/.well-known/oauth-authorization-server''\<rparr>,
            mockIssuer\<lparr>pathname := ''/.well-known/openid-configuration''\<rparr>,
            mockIssuer\<lparr>pathname := ''/.well-known/oauth-authorization-server''\<rparr>]"
  have c: "MCP_OAUTH_DISCOVERY_RETRIES ?cfg = 2" "MCP_OAUTH_DISCOVERY_RETRY_DELAY_MS ?cfg = 100"
    by (simp_all add: mockConfig_def)
  have cs: "buildWellKnownCandidates mockIssuer = Inr ?cs" by code_simp
  have u2: "rounds_unusable notFoundFetch 0 ?cs (nat 2)" by code_simp
  have u1: "rounds_unusable lateFetch 0 ?cs 1" by code_simp
  have r: "round_unusable lateFetch (1 * length ?cs) (take 1 ?cs)" by code_simp
  have s: "usable_json (lateFetch (1 * length ?cs + 1) (href (?cs ! 1))) = Some mockOAuthMetadata"
    by code_simp
  have e1: "sleeping_rounds_events (nat 2 - 1) 100 ?cs @ round_events ?cs =
       [Fetched ''http://localhost:8080/realms/test/.well-known/openid-configuration'',
        Fetched ''http://localhost:8080/realms/test/.well-known/oauth-authorization-server'',
        Fetched ''http://localhost:8080/.well-known/openid-configuration'',
        Fetched ''http://localhost:8080/.well-known/oauth-authorization-server'',
        Slept 100,
        Fetched ''http://localhost:8080/realms/test/.well-known/openid-configuration'',
        Fetched ''http://localhost:8080/realms/test/.well-known/oauth-authorization-server'',
        Fetched ''http://localhost:8080/.well-known/openid-configuration'',
        Fetched ''http://localhost:8080/.well-known/oauth-authorization-server'']"
    by code_simp
  have e2: "sleeping_rounds_events 1 100 ?cs @ round_events (take (Suc 1) ?cs) =
       [Fetched ''http://localhost:8080/realms/test/.well-known/openid-configuration'',
        Fetched ''http://localhost:8080/realms/test/.well-known/oauth-authorization-server'',
        Fetched ''http://localhost:8080/.well-known/openid-configuration'',
        Fetched ''http://localhost:8080/.well-known/oauth-authorization-server'',
        Slept 100,
        Fetched ''http://localhost:8080/realms/test/.well-known/openid-configuration'',
        Fetched ''http://localhost:8080/realms/test/.well-known/oauth-authorization-server'']"
    by code_simp
  have a: "discoverOAuthMetadata ?cfg notFoundFetch mockIssuer =
        (Inl (Error (''Unable to load OAuth metadata from issuer '' @ href mockIssuer @ ''. Tried: ''
           @ join ''; '' (failed_rounds_attempts notFoundFetch 0 ?cs (nat 2)))),
         \<lparr>calls = nat 2 * length ?cs,
          attempts = failed_rounds_attempts notFoundFetch 0 ?cs (nat 2),
          events = sleeping_rounds_events (nat 2 - 1) 100 ?cs @ round_events ?cs\<rparr>)"
    using discoverOAuthMetadata_rounds
      [where issuer = mockIssuer and cs = ?cs and cfg = ?cfg and fetch = notFoundFetch]
      cs u2 unfolding c by simp
  have b: "discoverOAuthMetadata ?cfg lateFetch mockIssuer =
        (Inr mockOAuthMetadata,
         \<lparr>calls = 1 * length ?cs + 1 + 1,
          attempts = failed_rounds_attempts lateFetch 0 ?cs 1
                       @ round_attempts lateFetch (1 * length ?cs) (take 1 ?cs),
          events = sleeping_rounds_events 1 100 ?cs @ round_events (take (Suc 1) ?cs)\<rparr>)"
    using discoverOAuthMetadata_rounds
      [where issuer = mockIssuer and cs = ?cs and cfg = ?cfg and fetch = lateFetch
        and j = 1 and m = 1 and json = mockOAuthMetadata]
      cs u1 r s unfolding c by simp
  have l: "length (failed_rounds_attempts notFoundFetch 0 ?cs (nat 2)) = 8"
    using discoverOAuthMetadata_rounds [where fetch = notFoundFetch and k = 0 and cs = ?cs and n = "nat 2"]
    by simp
  show ?thesis
    unfolding a b using e1 e2 l by simp
qed

end
